theory Spec2Isabelle
  imports Complex_Main "HOL-Library.Word"
begin

unbundle bit_operations_syntax

section \<open>JavaScript values\<close>

text \<open>
  A thrown JavaScript error is a value: its class and its message. \<open>Error\<close> is what the
  source throws with \<open>new Error(...)\<close>; the other classes are raised by the platform
  (\<open>fetch\<close>, \<open>Response.json\<close>, a property read on \<open>undefined\<close>, axios).
\<close>

datatype error = Error string | TypeError string | SyntaxError string | AxiosError string

fun message :: "error \<Rightarrow> string" where
  "message (Error m) = m"
| "message (TypeError m) = m"
| "message (SyntaxError m) = m"
| "message (AxiosError m) = m"

text \<open>
  A string-valued property that may be absent (\<open>undefined\<close> or \<open>null\<close>) is a
  \<open>string option\<close>. \<open>truthy v\<close> is JavaScript's \<open>!!v\<close> on such a value: absent
  values and the empty string are falsy.
\<close>

definition truthy :: "string option \<Rightarrow> bool" where
  "truthy v = (case v of None \<Rightarrow> False | Some s \<Rightarrow> s \<noteq> [])"

text \<open>\<open>s.startsWith(p)\<close>\<close>

definition startsWith :: "string \<Rightarrow> string \<Rightarrow> bool" where
  "startsWith s p = (take (length p) s = p)"

text \<open>\<open>s.includes(t)\<close>: \<open>t\<close> occurs in \<open>s\<close> as a contiguous substring.\<close>

fun includes_str :: "string \<Rightarrow> string \<Rightarrow> bool" where
  "includes_str [] t = (t = [])"
| "includes_str (c # s) t = (startsWith (c # s) t \<or> includes_str s t)"

text \<open>\<open>s.split(c)\<close> for a one-character separator.\<close>

fun split :: "char \<Rightarrow> string \<Rightarrow> string list" where
  "split c [] = [[]]"
| "split c (x # xs) =
     (if x = c then [] # split c xs
      else (case split c xs of p # ps \<Rightarrow> (x # p) # ps | [] \<Rightarrow> [[x]]))"

subsection \<open>Numbers as text\<close>

text \<open>
  The decimal text of an integer, as a template literal renders a JavaScript number that
  holds an integer (below \<open>10^21\<close> in size, which every \<open>Date.now()\<close> and every HTTP
  status is).
\<close>

definition digit_char :: "nat \<Rightarrow> char" where
  "digit_char d = ''0123456789'' ! (d mod 10)"

function dec_digits :: "int \<Rightarrow> string" where
  "dec_digits i =
     (if i < 10 then [digit_char (nat i)]
      else dec_digits (i div 10) @ [digit_char (nat (i mod 10))])"
  by pat_completeness auto
termination
  by (relation "measure nat") auto

declare dec_digits.simps [simp del]

definition toString :: "int \<Rightarrow> string" where
  "toString i = (if i < 0 then CHR ''-'' # dec_digits (- i) else dec_digits i)"

subsection \<open>Byte buffers as hexadecimal text\<close>

text \<open>\<open>buf.toString("hex")\<close> and \<open>digest("hex")\<close>: two lowercase digits a byte.\<close>

definition hex_digit :: "nat \<Rightarrow> char" where
  "hex_digit d = ''0123456789abcdef'' ! (d mod 16)"

definition hex_byte :: "8 word \<Rightarrow> string" where
  "hex_byte b = [hex_digit (unat b div 16), hex_digit (unat b)]"

definition toHex :: "8 word list \<Rightarrow> string" where
  "toHex bs = concat (map hex_byte bs)"

text \<open>The bytes of a word of \<open>n\<close> bytes, most significant first.\<close>

definition bytes_of :: "nat \<Rightarrow> 'a::len word \<Rightarrow> 8 word list" where
  "bytes_of n w = map (\<lambda>i. ucast (drop_bit (8 * i) w)) (rev [0..<n])"

section \<open>The signature generator\<close>

text \<open>
  What the generator reads from its surroundings: whether a global \<open>window\<close> is defined,
  the clock, the random identifier and the keyed hash. \<open>crypto.randomUUID()\<close> draws a
  128-bit identifier and \<open>createHmac("sha256", key).update(msg).digest()\<close> is a 256-bit
  digest; both are platform functions and enter as values of that width. \<open>nanoid\<close> is
  imported from \<open>./lib/alphabet\<close>, which is not among the sources (the specification says
  of its result only that it has a fixed length and a restricted alphabet): it is a
  parameter, \<open>nanoid rt n\<close> being what \<open>nanoid(n)\<close> returns.
\<close>

record runtime =
  window_defined :: bool
  Date_now :: int
  randomUUID :: "128 word"
  nanoid :: "nat \<Rightarrow> string"
  createHmac_sha256 :: "string \<Rightarrow> string \<Rightarrow> 256 word"

text \<open>The canonical text of a UUID: 8-4-4-4-12 lowercase hexadecimal digits.\<close>

definition uuid_string :: "128 word \<Rightarrow> string" where
  "uuid_string u =
     (let h = toHex (bytes_of 16 u)
      in take 8 h @ ''-'' @ take 4 (drop 8 h) @ ''-'' @ take 4 (drop 12 h) @ ''-''
         @ take 4 (drop 16 h) @ ''-'' @ drop 20 h)"

record SigResult =
  payload :: string
  signature :: string

text \<open>The platform calls a run of the generator makes, in order.\<close>

datatype platform_call = DateNow | RandomUUID | Nanoid nat | CreateHmac string string

text \<open>\<open>generateSig\<close> of \<open>src/unnamed/part_001\<close>.\<close>

definition generateSig :: "runtime \<Rightarrow> string \<Rightarrow> platform_call list \<times> (error + SigResult)" where
  "generateSig rt secretKey =
     (if secretKey = [] then ([], Inl (Error ''Secret key is required''))
      else if startsWith secretKey ''pk_'' then
        ([], Inl (Error ''Secret key is invalid. You are currently using a public key''))
      else if window_defined rt then
        ([], Inl (Error ''Secret key should not be used in the browser. Please only use it in a server environment.''))
      else
        (let timestamp = Date_now rt;
             requestId = uuid_string (randomUUID rt);
             payload = requestId @ '':'' @ toString timestamp;
             signature = toHex (bytes_of 32 (createHmac_sha256 rt secretKey payload))
         in ([DateNow, RandomUUID, CreateHmac secretKey payload],
             Inr \<lparr>payload = payload, signature = signature\<rparr>)))"

text \<open>\<open>generateRestashSig\<close> of \<open>src/src/index.ts\<close>.\<close>

definition generateRestashSig :: "runtime \<Rightarrow> string \<Rightarrow> platform_call list \<times> (error + SigResult)" where
  "generateRestashSig rt secretKey =
     (if secretKey = [] then ([], Inl (Error ''Secret key is required''))
      else if startsWith secretKey ''pk_'' then
        ([], Inl (Error ''Secret key is invalid. You are currently using a public key''))
      else if window_defined rt then
        ([], Inl (Error ''Secret key should not be used in the browser. Please only use it in a server environment.''))
      else
        (let timestamp = Date_now rt;
             requestId = nanoid rt 32;
             payload = requestId @ '':'' @ toString timestamp;
             signature = toHex (bytes_of 32 (createHmac_sha256 rt secretKey payload))
         in ([DateNow, Nanoid 32, CreateHmac secretKey payload],
             Inr \<lparr>payload = payload, signature = signature\<rparr>)))"

section \<open>The uploader\<close>

subsection \<open>Files, options and results\<close>

text \<open>
  What the returned function is handed as its \<open>file\<close>: a \<open>File\<close> with name, MIME type
  and size; a \<open>Blob\<close> that is not a \<open>File\<close>, with MIME type and size but no name; or a
  value that is not a \<open>Blob\<close> at all and has none of the three properties (the \<open>{}\<close> of
  the tests).
\<close>

datatype js_file = NotBlob | Blob string nat | File string string nat

text \<open>\<open>UploadOptions\<close> of \<open>src/src/index.ts\<close>, whose factory takes \<open>{ publicKey }\<close> alone: the
  key is passed as a string. \<open>onProgress\<close> says whether a callback was given; what it is
  called with is logged as an event.\<close>

record UploadOptions =
  path :: "string option"
  handleSignature :: "string option"
  onProgress :: bool

text \<open>\<open>UploadOptions\<close> and \<open>RestashUploaderOptions\<close> of \<open>src/unnamed/part_001\<close>.\<close>

record UploadOptions_part_001 =
  name :: "string option"
  path :: "string option"
  onProgress :: bool

record RestashUploaderOptions =
  publicKey :: string
  handleSignature :: "string option"

record UploadProgress =
  percent :: int
  loaded :: nat
  total :: nat

record UploadResult =
  result_id :: string
  result_url :: string
  result_key :: string
  result_name :: string
  result_size :: nat
  result_contentType :: string

subsection \<open>The network\<close>

text \<open>
  A \<open>fetch\<close> either rejects or resolves to a response; \<open>res.json()\<close> either rejects or
  resolves to the parsed body. Bodies are read at the types the source casts them to, an
  absent or \<open>null\<close> property being \<open>None\<close>. \<open>form_fields\<close> (the \<open>fields\<close> of the body)
  holds the entries of the object in the order \<open>Object.entries\<close> lists them.
\<close>

record 'a response =
  ok :: bool
  json :: "error + 'a"

record sigData =
  sigData_signature :: "string option"
  sigData_payload :: "string option"

record RestashError =
  code :: string
  error_message :: string

record 'a api_body =
  error_field :: "RestashError option"
  body_data :: 'a

record PrepareData =
  url :: "string option"
  form_fields :: "(string \<times> string) list option"
  confirmToken :: "string option"

text \<open>The progress event axios hands to \<open>onUploadProgress\<close>; its \<open>total\<close> is optional.\<close>

record progress_event =
  event_loaded :: nat
  event_total :: "nat option"

text \<open>
  Everything one run of the upload function reads from outside: the process environment,
  the random bytes (\<open>entropy net i\<close> is the \<open>i\<close>-th byte drawn), and what each endpoint
  answers. \<open>uploadRes\<close> is the HTTP status the destination answers with (or the network
  failure), \<open>progressEvents\<close> the progress events of the transfer.
\<close>

record network =
  NODE_ENV :: "string option"
  SPOOFED_ORIGIN :: "string option"
  entropy :: "nat \<Rightarrow> 8 word"
  signatureRes :: "error + sigData response"
  prepareRes :: "error + PrepareData api_body response"
  progressEvents :: "progress_event list"
  uploadRes :: "error + nat"
  confirmRes :: "error + UploadResult api_body response"

text \<open>
  What a run does that can be seen from outside, in order: the requests it makes, with
  the headers and the body it sends, and the calls of the progress callback.
\<close>

record PrepareBody =
  file_name :: string
  file_type :: string
  file_size :: nat
  file_path :: "string option"
  body_signature :: "string option"
  body_payload :: "string option"

datatype form_value = Text string | FilePart js_file

datatype event =
    SignatureGet string
  | PreparePost "(string \<times> string) list" PrepareBody
  | TransferPost "string option" "(string \<times> form_value) list"
  | ProgressReport UploadProgress
  | ConfirmPost "(string \<times> string) list" "string option"

fun is_prepare :: "event \<Rightarrow> bool" where
  "is_prepare (PreparePost h b) = True"
| "is_prepare e = False"

fun is_transfer :: "event \<Rightarrow> bool" where
  "is_transfer (TransferPost u f) = True"
| "is_transfer e = False"

text \<open>A run: the events so far and how it ended. \<open>andThen\<close> is \<open>await\<close>: a rejection ends
  the run, otherwise the next step runs on the value.\<close>

type_synonym 'a run = "event list \<times> (error + 'a)"

definition andThen :: "'a run \<Rightarrow> ('a \<Rightarrow> 'b run) \<Rightarrow> 'b run" where
  "andThen r f =
     (case r of
        (evs, Inl e) \<Rightarrow> (evs, Inl e)
      | (evs, Inr x) \<Rightarrow> (case f x of (evs', y) \<Rightarrow> (evs @ evs', y)))"

definition throw :: "error \<Rightarrow> 'a run" where
  "throw e = ([], Inl e)"

subsection \<open>The steps of the upload\<close>

text \<open>\<open>if (handleSignature) { ... }\<close> of \<open>src/src/index.ts\<close>, lines 92 to 101.\<close>

definition getSignature :: "string option \<Rightarrow> network \<Rightarrow> (string option \<times> string option) run" where
  "getSignature hs net =
     (case hs of
        None \<Rightarrow> ([], Inr (None, None))
      | Some u \<Rightarrow>
          if u = [] then ([], Inr (None, None))
          else ([SignatureGet u],
            case signatureRes net of
              Inl e \<Rightarrow> Inl e
            | Inr res \<Rightarrow>
                if \<not> ok res then Inl (Error ''Failed to get signature'')
                else (case json res of
                        Inl e \<Rightarrow> Inl e
                      | Inr d \<Rightarrow> Inr (sigData_signature d, sigData_payload d))))"

text \<open>The same block of \<open>src/unnamed/part_001\<close>, lines 121 to 142, with its two checks.\<close>

definition getSignature_part_001 :: "string option \<Rightarrow> network \<Rightarrow> (string option \<times> string option) run" where
  "getSignature_part_001 hs net =
     (case hs of
        None \<Rightarrow> ([], Inr (None, None))
      | Some u \<Rightarrow>
          if u = [] then ([], Inr (None, None))
          else ([SignatureGet u],
            case signatureRes net of
              Inl e \<Rightarrow> Inl e
            | Inr res \<Rightarrow>
                if \<not> ok res then Inl (Error ''Failed to get signature'')
                else (case json res of
                        Inl e \<Rightarrow> Inl e
                      | Inr d \<Rightarrow>
                          if \<not> truthy (sigData_signature d) then
                            Inl (Error ''Your signature endpoint did not return a valid signature'')
                          else if \<not> truthy (sigData_payload d) then
                            Inl (Error ''Your signature endpoint did not return a valid payload'')
                          else Inr (sigData_signature d, sigData_payload d))))"

text \<open>\<open>...(v && { v })\<close>: the property is there only when \<open>v\<close> is truthy.\<close>

definition spread_if :: "string option \<Rightarrow> string option" where
  "spread_if v = (if truthy v then v else None)"

text \<open>
  A response that is not \<open>ok\<close> is read as \<open>{ error }\<close> and rethrown with the server's
  message; reading \<open>error.message\<close> of a body without \<open>error\<close> is a \<open>TypeError\<close>.
\<close>

definition readBody :: "error + 'a api_body response \<Rightarrow> error + 'a" where
  "readBody r =
     (case r of
        Inl e \<Rightarrow> Inl e
      | Inr res \<Rightarrow>
          (case json res of
             Inl e \<Rightarrow> Inl e
           | Inr b \<Rightarrow>
               if \<not> ok res then
                 (case error_field b of
                    None \<Rightarrow> Inl (TypeError ''Cannot read properties of undefined'')
                  | Some er \<Rightarrow> Inl (Error (error_message er)))
               else Inr (body_data b)))"

text \<open>The request to \<open>/v1/uploads/prepare\<close>, the same in both files: the body is
  \<open>{ file: { name, type, size, ...(path && { path }) }, ...(signature && { signature }),
  ...(payload && { payload }) }\<close>.\<close>

definition prepare_body ::
  "string \<Rightarrow> string \<Rightarrow> nat \<Rightarrow> string option \<Rightarrow> string option \<Rightarrow> string option \<Rightarrow> PrepareBody" where
  "prepare_body n t s p sg pl =
     \<lparr>file_name = n, file_type = t, file_size = s, file_path = spread_if p,
      body_signature = spread_if sg, body_payload = spread_if pl\<rparr>"

definition prepare :: "(string \<times> string) list \<Rightarrow> PrepareBody \<Rightarrow> network \<Rightarrow> PrepareData run" where
  "prepare headers body net = ([PreparePost headers body], readBody (prepareRes net))"

text \<open>The body of the \<open>onUploadProgress\<close> handler. \<open>Math.round\<close> rounds to the nearest
  integer, a half upwards; the quotient is taken exactly.\<close>

definition Math_round :: "rat \<Rightarrow> int" where
  "Math_round x = \<lfloor>x + 1 / 2\<rfloor>"

text \<open>\<open>total || 1\<close>: an absent total and the total 0 are falsy.\<close>

definition or_1 :: "nat option \<Rightarrow> nat" where
  "or_1 t0 = (case t0 of None \<Rightarrow> 1 | Some t \<Rightarrow> if t = 0 then 1 else t)"

definition onUploadProgress :: "progress_event \<Rightarrow> UploadProgress" where
  "onUploadProgress progressEvent =
     (let loaded = event_loaded progressEvent;
          total = event_total progressEvent;
          percent = Math_round (of_nat (loaded * 100) / of_nat (or_1 total))
      in \<lparr>percent = percent, loaded = loaded, total = or_1 total\<rparr>)"

text \<open>
  \<open>axios.post\<close>, from the axios documentation: the promise resolves when
  \<open>validateStatus\<close> accepts the status of the response and rejects with an \<open>AxiosError\<close>
  otherwise; without the option, the statuses from 200 to 299 are accepted.
\<close>

definition default_validateStatus :: "nat \<Rightarrow> bool" where
  "default_validateStatus status = (200 \<le> status \<and> status < 300)"

definition axios_post :: "(nat \<Rightarrow> bool) \<Rightarrow> network \<Rightarrow> error + nat" where
  "axios_post validateStatus net =
     (case uploadRes net of
        Inl e \<Rightarrow> Inl e
      | Inr status \<Rightarrow>
          if validateStatus status then Inr status
          else Inl (AxiosError (''Request failed with status code '' @ toString (int status))))"

text \<open>
  The form and the transfer: \<open>Object.entries(fields)\<close> (a \<open>TypeError\<close> on \<open>undefined\<close>),
  the file under \<open>file\<close>, the post with its progress reports, and the check of the
  status.
\<close>

definition transfer ::
  "(nat \<Rightarrow> bool) \<Rightarrow> js_file \<Rightarrow> bool \<Rightarrow> string option \<Rightarrow> (string \<times> string) list option \<Rightarrow> network \<Rightarrow> unit run" where
  "transfer validateStatus file0 progress_cb url0 fields0 net =
     (case fields0 of
        None \<Rightarrow> throw (TypeError ''Cannot convert undefined or null to object'')
      | Some fs \<Rightarrow>
          (let formData = map (\<lambda>(key, v). (key, Text v)) fs @ [(''file'', FilePart file0)]
           in (TransferPost url0 formData #
                 (if progress_cb then map (\<lambda>ev. ProgressReport (onUploadProgress ev)) (progressEvents net)
                  else []),
               case axios_post validateStatus net of
                 Inl e \<Rightarrow> Inl e
               | Inr status \<Rightarrow>
                   if status < 200 \<or> status \<ge> 300 then Inl (Error ''Failed to upload file'')
                   else Inr ())))"

text \<open>The request to \<open>/v1/uploads/confirm\<close>, the same in both files.\<close>

definition confirm :: "(string \<times> string) list \<Rightarrow> string option \<Rightarrow> network \<Rightarrow> UploadResult run" where
  "confirm headers token net = ([ConfirmPost headers token], readBody (confirmRes net))"

text \<open>\<open>crypto.randomBytes(n)\<close>: a buffer of \<open>n\<close> random bytes.\<close>

definition randomBytes :: "network \<Rightarrow> nat \<Rightarrow> 8 word list" where
  "randomBytes net n = map (entropy net) [0..<n]"

text \<open>\<open>a || b\<close> on strings.\<close>

definition or_else :: "string option \<Rightarrow> string \<Rightarrow> string" where
  "or_else v d = (case v of None \<Rightarrow> d | Some s \<Rightarrow> if s = [] then d else s)"

subsection \<open>\<open>createRestashUploader\<close> of \<open>src/src/index.ts\<close>\<close>

text \<open>
  Lines 89 to 172: everything after the checks, with \<open>name\<close>, \<open>type\<close> and \<open>size\<close> read
  from the file. Axios is given \<open>validateStatus: () => true\<close>, and nothing in the body of
  the prepare response is checked.
\<close>

definition send ::
  "string \<Rightarrow> js_file \<Rightarrow> UploadOptions \<Rightarrow> network \<Rightarrow> string \<Rightarrow> string \<Rightarrow> nat \<Rightarrow> UploadResult run" where
  "send pk file0 options net n t s =
     andThen (getSignature (UploadOptions.handleSignature options) net) (\<lambda>(signature, payload).
     andThen (prepare [(''x-public-key'', pk)]
                (prepare_body n t s (UploadOptions.path options) signature payload) net) (\<lambda>d.
     andThen (transfer (\<lambda>status. True) file0 (UploadOptions.onProgress options)
                (url d) (form_fields d) net) (\<lambda>u.
     confirm [(''x-public-key'', pk)] (confirmToken d) net)))"

text \<open>
  The function the factory returns, closed over \<open>publicKey\<close>: lines 72 to 87. Of the
  three kinds of \<open>file\<close> only a \<open>File\<close> has a name, so only a \<open>File\<close> can pass
  \<open>!name || !size || !type\<close>.
\<close>

definition upload :: "string \<Rightarrow> js_file \<Rightarrow> UploadOptions \<Rightarrow> network \<Rightarrow> UploadResult run" where
  "upload pk file0 options net =
     (if pk = [] then throw (Error ''Public key is required'')
      else if startsWith pk ''sk_'' then
        throw (Error ''Public key is invalid. You are currently using a secret key'')
      else
        (case file0 of
           File n t s \<Rightarrow>
             if n = [] \<or> s = 0 \<or> t = [] then throw (Error ''File passed in is invalid'')
             else send pk file0 options net n t s
         | _ \<Rightarrow> throw (Error ''File passed in is invalid'')))"

text \<open>The factory only builds that function: it has no \<open>throw\<close> of its own.\<close>

definition createRestashUploader ::
  "string \<Rightarrow> error + (js_file \<Rightarrow> UploadOptions \<Rightarrow> network \<Rightarrow> UploadResult run)" where
  "createRestashUploader pk = Inr (upload pk)"

subsection \<open>\<open>createRestashUploader\<close> of \<open>src/unnamed/part_001\<close>\<close>

text \<open>The headers: the origin is added in test mode when \<open>SPOOFED_ORIGIN\<close> is set.\<close>

definition request_headers :: "string \<Rightarrow> network \<Rightarrow> (string \<times> string) list" where
  "request_headers pk net =
     (''x-public-key'', pk) #
     (if NODE_ENV net = Some ''test'' \<and> truthy (SPOOFED_ORIGIN net)
      then [(''origin'', or_else (SPOOFED_ORIGIN net) [])] else [])"

text \<open>Lines 109 to 216: everything after \<open>name\<close>, \<open>type\<close> and \<open>size\<close> are known. Axios
  is given no \<open>validateStatus\<close>.\<close>

definition send_part_001 ::
  "RestashUploaderOptions \<Rightarrow> js_file \<Rightarrow> UploadOptions_part_001 \<Rightarrow> network
     \<Rightarrow> string \<Rightarrow> string \<Rightarrow> nat \<Rightarrow> UploadResult run" where
  "send_part_001 cfg file0 options net n t s =
     (let headers = request_headers (publicKey cfg) net in
      andThen (getSignature_part_001 (RestashUploaderOptions.handleSignature cfg) net) (\<lambda>(signature, payload).
      andThen (prepare headers
                 (prepare_body n t s (UploadOptions_part_001.path options) signature payload) net) (\<lambda>d.
      if \<not> truthy (url d) \<or> form_fields d = None \<or> \<not> truthy (confirmToken d) then
        throw (Error ''Invalid response from prepare upload'')
      else
        andThen (transfer default_validateStatus file0 (UploadOptions_part_001.onProgress options)
                   (url d) (form_fields d) net) (\<lambda>u.
        confirm headers (confirmToken d) net))))"

text \<open>Lines 89 to 107: the checks, and the name: \<open>options.name\<close>, else the name of a
  \<open>File\<close>, else eight random bytes in hexadecimal.\<close>

definition upload_part_001 ::
  "RestashUploaderOptions \<Rightarrow> js_file \<Rightarrow> UploadOptions_part_001 \<Rightarrow> network \<Rightarrow> UploadResult run" where
  "upload_part_001 cfg file0 options net =
     (if publicKey cfg = [] then throw (Error ''Public key is required'')
      else if startsWith (publicKey cfg) ''sk_'' then
        throw (Error ''Public key is invalid. You are currently using a secret key'')
      else
        (case file0 of
           NotBlob \<Rightarrow> throw (Error ''Invalid file passed in. Please pass in a File or Blob'')
         | Blob t s \<Rightarrow>
             send_part_001 cfg file0 options net
               (or_else (name options) (toHex (randomBytes net 8))) t s
         | File n t s \<Rightarrow>
             send_part_001 cfg file0 options net (or_else (name options) n) t s))"

definition createRestashUploader_part_001 ::
  "RestashUploaderOptions
     \<Rightarrow> error + (js_file \<Rightarrow> UploadOptions_part_001 \<Rightarrow> network \<Rightarrow> UploadResult run)" where
  "createRestashUploader_part_001 cfg = Inr (upload_part_001 cfg)"

section \<open>Vocabulary of the properties and example runs\<close>

text \<open>
  What is asked of a generated signature: the payload is the identifier, one colon and
  the clock in milliseconds, so it has one colon and splits into these two parts; the
  signature is the keyed hash of the payload in hexadecimal, 64 lowercase digits.
\<close>

definition sig_well_formed :: "runtime \<Rightarrow> string \<Rightarrow> string \<Rightarrow> SigResult \<Rightarrow> bool" where
  "sig_well_formed rt secretKey requestId r =
     (payload r = requestId @ '':'' @ toString (Date_now rt)
      \<and> count_list (payload r) CHR '':'' = 1
      \<and> split CHR '':'' (payload r) = [requestId, toString (Date_now rt)]
      \<and> signature r = toHex (bytes_of 32 (createHmac_sha256 rt secretKey (payload r)))
      \<and> length (signature r) = 64
      \<and> set (signature r) \<subseteq> set ''0123456789abcdef'')"

text \<open>A server runtime and a browser.\<close>

definition example_runtime :: runtime where
  "example_runtime =
     \<lparr>window_defined = False, Date_now = 1700000000000,
      randomUUID = 0x0123456789abcdef0123456789abcdef,
      nanoid = (\<lambda>n. replicate n CHR ''x''),
      createHmac_sha256 = (\<lambda>k m. of_nat (length k + length m))\<rparr>"

definition example_browser :: runtime where
  "example_browser = example_runtime\<lparr>window_defined := True\<rparr>"

text \<open>The file and the blob of the tests, and a network on which every step succeeds.\<close>

definition example_file :: js_file where
  "example_file = File ''test.txt'' ''text/plain'' 4"

definition example_blob :: js_file where
  "example_blob = Blob ''text/plain'' 4"

definition example_result :: UploadResult where
  "example_result =
     \<lparr>result_id = ''f_1'', result_url = ''https://cdn.example/uploads/test.txt'',
      result_key = ''uploads/test.txt'', result_name = ''test.txt'', result_size = 4,
      result_contentType = ''text/plain''\<rparr>"

definition example_network :: network where
  "example_network =
     \<lparr>NODE_ENV = Some ''test'', SPOOFED_ORIGIN = None,
      entropy = (\<lambda>i. of_nat (37 * i + 11)),
      signatureRes = Inr \<lparr>ok = True,
        json = Inr \<lparr>sigData_signature = Some ''5f2a'', sigData_payload = Some ''id:1700000000000''\<rparr>\<rparr>,
      prepareRes = Inr \<lparr>ok = True,
        json = Inr \<lparr>error_field = None,
          body_data = \<lparr>url = Some ''https://bucket.example/'',
            form_fields = Some [(''key'', ''uploads/test.txt'')],
            confirmToken = Some ''tok_1''\<rparr>\<rparr>\<rparr>,
      progressEvents = [\<lparr>event_loaded = 2, event_total = Some 4\<rparr>,
                        \<lparr>event_loaded = 4, event_total = Some 4\<rparr>],
      uploadRes = Inr 204,
      confirmRes = Inr \<lparr>ok = True, json = Inr \<lparr>error_field = None, body_data = example_result\<rparr>\<rparr>\<rparr>"

definition no_options :: UploadOptions where
  "no_options = \<lparr>UploadOptions.path = None, handleSignature = None, onProgress = False\<rparr>"

definition no_options_part_001 :: UploadOptions_part_001 where
  "no_options_part_001 = \<lparr>name = None, path = None, onProgress = False\<rparr>"

definition progress_options :: UploadOptions where
  "progress_options = \<lparr>UploadOptions.path = None, handleSignature = None, onProgress = True\<rparr>"

definition progress_options_part_001 :: UploadOptions_part_001 where
  "progress_options_part_001 = \<lparr>name = None, path = None, onProgress = True\<rparr>"

text \<open>A progress event whose total is not known.\<close>

definition unknown_total :: progress_event where
  "unknown_total = \<lparr>event_loaded = 4, event_total = None\<rparr>"

definition example_config :: RestashUploaderOptions where
  "example_config = \<lparr>publicKey = ''pk_test'', handleSignature = None\<rparr>"

text \<open>The answers the tests mock: a signature endpoint that returns an empty signature,
  and a prepare endpoint that returns an empty confirmation token.\<close>

definition empty_signature_response :: "error + sigData response" where
  "empty_signature_response =
     Inr \<lparr>ok = True, json = Inr \<lparr>sigData_signature = Some [], sigData_payload = Some ''123''\<rparr>\<rparr>"

definition empty_token_response :: "error + PrepareData api_body response" where
  "empty_token_response =
     Inr \<lparr>ok = True,
       json = Inr \<lparr>error_field = None,
         body_data = \<lparr>url = Some ''my-url'', form_fields = Some [(''key'', ''test'')],
           confirmToken = Some []\<rparr>\<rparr>\<rparr>"

section \<open>Text: digits, hexadecimal, splitting\<close>

lemma digit_char_in: "digit_char d \<in> set ''0123456789''"
  unfolding digit_char_def by (rule nth_mem) simp

lemma hex_digit_in: "hex_digit d \<in> set ''0123456789abcdef''"
  unfolding hex_digit_def by (rule nth_mem) simp

lemma colon_notin_dec_digits: "CHR '':'' \<notin> set (dec_digits i)"
proof (induction i rule: dec_digits.induct)
  case (1 i)
  have d: "CHR '':'' \<noteq> digit_char k" for k
    using digit_char_in [of k] by auto
  show ?case
  proof (cases "i < 10")
    case True
    then show ?thesis using d by (subst dec_digits.simps) simp
  next
    case False
    then show ?thesis using d 1 by (subst dec_digits.simps) simp
  qed
qed

lemma colon_notin_toString: "CHR '':'' \<notin> set (toString i)"
  by (simp add: toString_def colon_notin_dec_digits)

lemma set_hex_byte: "set (hex_byte b) \<subseteq> set ''0123456789abcdef''"
  using hex_digit_in [of "unat b div 16"] hex_digit_in [of "unat b"]
  by (simp add: hex_byte_def)

lemma set_toHex: "set (toHex bs) \<subseteq> set ''0123456789abcdef''"
  unfolding toHex_def using set_hex_byte by (induction bs) auto

lemma length_toHex: "length (toHex bs) = 2 * length bs"
  by (induction bs) (simp_all add: toHex_def hex_byte_def)

lemma length_bytes_of: "length (bytes_of n w) = n"
  by (simp add: bytes_of_def)

lemma length_randomBytes: "length (randomBytes net n) = n"
  by (simp add: randomBytes_def)

lemma colon_notin_toHex: "CHR '':'' \<notin> set (toHex bs)"
  using set_toHex [of bs] by auto

lemma colon_notin_uuid_string: "CHR '':'' \<notin> set (uuid_string u)"
proof -
  have t: "CHR '':'' \<notin> set (take k h)" if "CHR '':'' \<notin> set h" for k and h :: string
    using that by (meson in_set_takeD)
  have d: "CHR '':'' \<notin> set (drop k h)" if "CHR '':'' \<notin> set h" for k and h :: string
    using that by (meson in_set_dropD)
  show ?thesis
    unfolding uuid_string_def Let_def
    using colon_notin_toHex [of "bytes_of 16 u"] by (simp add: t d)
qed

lemma split_no_sep: "c \<notin> set s \<Longrightarrow> split c s = [s]"
  by (induction s) auto

lemma split_once: "c \<notin> set a \<Longrightarrow> c \<notin> set b \<Longrightarrow> split c (a @ c # b) = [a, b]"
  by (induction a) (auto simp: split_no_sep)

lemma count_once: "c \<notin> set a \<Longrightarrow> c \<notin> set b \<Longrightarrow> count_list (a @ c # b) c = 1"
  by (simp add: count_list_0_iff)

section \<open>The signature generator: what it returns and when it throws\<close>

lemma sig_well_formedI:
  assumes "CHR '':'' \<notin> set requestId"
  shows "sig_well_formed rt k requestId
           \<lparr>payload = requestId @ '':'' @ toString (Date_now rt),
            signature = toHex (bytes_of 32
              (createHmac_sha256 rt k (requestId @ '':'' @ toString (Date_now rt))))\<rparr>"
proof -
  let ?p = "requestId @ '':'' @ toString (Date_now rt)"
  let ?s = "toHex (bytes_of 32 (createHmac_sha256 rt k ?p))"
  have c: "count_list ?p CHR '':'' = 1"
    using count_once [OF assms colon_notin_toString] by simp
  have s: "split CHR '':'' ?p = [requestId, toString (Date_now rt)]"
    using split_once [OF assms colon_notin_toString] by simp
  have l: "length ?s = 64"
    by (simp add: length_toHex length_bytes_of)
  have h: "set ?s \<subseteq> set ''0123456789abcdef''"
    by (rule set_toHex)
  show ?thesis
    unfolding sig_well_formed_def SigResult.simps
    using c s l h by blast
qed

lemma example_runtime_simps:
  "window_defined example_runtime = False"
  "nanoid example_runtime 32 = replicate 32 CHR ''x''"
  "window_defined example_browser = True"
  by (simp_all add: example_runtime_def example_browser_def)

text \<open>
  C7. Given a secret key that is not empty and does not start with \<open>pk_\<close>, outside a
  browser, the generator returns a pair: the payload is the random identifier, one colon
  and the clock in milliseconds (exactly one colon in it, and splitting at the colon
  gives exactly these two parts), and the signature is the HMAC-SHA256 of the payload
  under the key in hexadecimal, 64 characters, each a lowercase hexadecimal digit. For
  \<open>generateSig\<close> the identifier is a UUID; for \<open>generateRestashSig\<close> it comes from
  \<open>nanoid\<close>, whose alphabet is not among the sources and must not contain the colon.
\<close>

theorem generateSig_payload_signature:
  assumes "secretKey \<noteq> []" and "\<not> startsWith secretKey ''pk_''" and "\<not> window_defined rt"
  shows "(\<exists>r. snd (generateSig rt secretKey) = Inr r
            \<and> sig_well_formed rt secretKey (uuid_string (randomUUID rt)) r)
       \<and> (CHR '':'' \<notin> set (nanoid rt 32) \<longrightarrow>
            (\<exists>r. snd (generateRestashSig rt secretKey) = Inr r
               \<and> sig_well_formed rt secretKey (nanoid rt 32) r))"
  using assms sig_well_formedI [OF colon_notin_uuid_string, of rt secretKey "randomUUID rt"]
    sig_well_formedI [of "nanoid rt 32" rt secretKey]
  by (simp add: generateSig_def generateRestashSig_def Let_def)

theorem generateSig_payload_signature_witness:
  "''sk_live_1'' \<noteq> [] \<and> \<not> startsWith ''sk_live_1'' ''pk_'' \<and> \<not> window_defined example_runtime
   \<and> CHR '':'' \<notin> set (nanoid example_runtime 32)
   \<and> (\<exists>r. snd (generateSig example_runtime ''sk_live_1'') = Inr r
          \<and> sig_well_formed example_runtime ''sk_live_1'' (uuid_string (randomUUID example_runtime)) r)
   \<and> (\<exists>r. snd (generateRestashSig example_runtime ''sk_live_1'') = Inr r
          \<and> sig_well_formed example_runtime ''sk_live_1'' (nanoid example_runtime 32) r)"
proof -
  have h1: "''sk_live_1'' \<noteq> []" by simp
  have h2: "\<not> startsWith ''sk_live_1'' ''pk_''" by (simp add: startsWith_def)
  have h3: "\<not> window_defined example_runtime" by (simp add: example_runtime_simps)
  have h4: "CHR '':'' \<notin> set (nanoid example_runtime 32)" by (simp add: example_runtime_simps)
  show ?thesis using generateSig_payload_signature [OF h1 h2 h3] h1 h2 h3 h4 by blast
qed

text \<open>
  C8. Where a global \<open>window\<close> is defined, the generator throws for every secret key, and
  it has made no platform call by then: no clock, no random identifier, no HMAC. The
  error is the first of the three checks that fails, the browser check being the last.
\<close>

theorem generateSig_browser_throws:
  assumes "window_defined rt"
  shows "generateSig rt secretKey =
           ([], Inl (Error (if secretKey = [] then ''Secret key is required''
                            else if startsWith secretKey ''pk_'' then
                              ''Secret key is invalid. You are currently using a public key''
                            else ''Secret key should not be used in the browser. Please only use it in a server environment.'')))
       \<and> generateRestashSig rt secretKey = generateSig rt secretKey"
  using assms by (simp add: generateSig_def generateRestashSig_def)

theorem generateSig_browser_throws_witness:
  "window_defined example_browser
   \<and> generateSig example_browser ''sk_live_1'' =
       ([], Inl (Error ''Secret key should not be used in the browser. Please only use it in a server environment.''))
   \<and> generateRestashSig example_browser ''sk_live_1'' = generateSig example_browser ''sk_live_1''"
proof -
  have h: "window_defined example_browser" by (simp add: example_runtime_simps)
  show ?thesis using generateSig_browser_throws [OF h, of "''sk_live_1''"] h
    by (simp add: startsWith_def)
qed

section \<open>The steps of a run\<close>

text \<open>
  A run is taken apart along its steps: how the signature step ended, what the prepare
  endpoint answered, how the transfer ended. Each lemma gives the events and the outcome
  of the whole run in one of these cases.
\<close>

lemma andThen_Inl: "andThen (evs, Inl e) f = (evs, Inl e)"
  and andThen_Inr: "andThen (evs, Inr x) f = (evs @ fst (f x), snd (f x))"
  by (simp_all add: andThen_def split: prod.splits)

lemma fst_getSignature:
  "fst (getSignature hs net) = (if truthy hs then [SignatureGet (or_else hs [])] else [])"
  by (simp add: getSignature_def truthy_def or_else_def split: option.splits)

lemma fst_getSignature_part_001:
  "fst (getSignature_part_001 hs net) = (if truthy hs then [SignatureGet (or_else hs [])] else [])"
  by (simp add: getSignature_part_001_def truthy_def or_else_def split: option.splits)

lemma fst_transfer:
  "fst (transfer v f cb u fs net) =
     (case fs of
        None \<Rightarrow> []
      | Some x \<Rightarrow>
          TransferPost u (map (\<lambda>(key, v). (key, Text v)) x @ [(''file'', FilePart f)]) #
          (if cb then map (\<lambda>ev. ProgressReport (onUploadProgress ev)) (progressEvents net) else []))"
  by (simp add: transfer_def throw_def Let_def split: option.splits)

lemma snd_transfer_None:
  "snd (transfer v f cb u None net) = Inl (TypeError ''Cannot convert undefined or null to object'')"
  by (simp add: transfer_def throw_def)

lemma snd_transfer_any_status:
  assumes "uploadRes net = Inr status"
  shows "snd (transfer (\<lambda>status. True) f cb u (Some fs) net) =
           (if status < 200 \<or> 300 \<le> status then Inl (Error ''Failed to upload file'') else Inr ())"
  using assms by (simp add: transfer_def axios_post_def Let_def)

lemma snd_transfer_default:
  assumes "uploadRes net = Inr status"
  shows "snd (transfer default_validateStatus f cb u (Some fs) net) =
           (if 200 \<le> status \<and> status < 300 then Inr ()
            else Inl (AxiosError (''Request failed with status code '' @ toString (int status))))"
  using assms by (auto simp add: transfer_def axios_post_def default_validateStatus_def Let_def)

lemma transfer_no_prepare: "ev \<in> set (fst (transfer v f cb u fs net)) \<Longrightarrow> \<not> is_prepare ev"
  by (auto simp add: fst_transfer split: option.splits if_splits)

lemma readBody_Inr_iff:
  "readBody (Inr res) = Inr d \<longleftrightarrow> ok res \<and> (\<exists>b. json res = Inr b \<and> d = body_data b)"
  by (auto simp add: readBody_def split: sum.splits option.splits)

subsection \<open>The run of \<open>src/src/index.ts\<close> by cases\<close>

lemma send_signature_fails:
  assumes "getSignature (UploadOptions.handleSignature opts) net = (evs, Inl e)"
  shows "send pk f opts net n t s = (evs, Inl e)"
  using assms by (simp add: send_def andThen_Inl)

lemma send_prepare_fails:
  assumes "getSignature (UploadOptions.handleSignature opts) net = (evs, Inr (sg, pl))"
    and "readBody (prepareRes net) = Inl e"
  shows "send pk f opts net n t s =
           (evs @ [PreparePost [(''x-public-key'', pk)] (prepare_body n t s (UploadOptions.path opts) sg pl)],
            Inl e)"
  using assms by (simp add: send_def andThen_Inl andThen_Inr prepare_def)

lemma send_prepared:
  assumes "getSignature (UploadOptions.handleSignature opts) net = (evs, Inr (sg, pl))"
    and "readBody (prepareRes net) = Inr d"
    and "tr = transfer (\<lambda>status. True) f (UploadOptions.onProgress opts) (url d) (form_fields d) net"
  shows "send pk f opts net n t s =
           (evs @ PreparePost [(''x-public-key'', pk)] (prepare_body n t s (UploadOptions.path opts) sg pl) #
              fst tr @ (case snd tr of Inl e \<Rightarrow> []
                        | Inr u \<Rightarrow> [ConfirmPost [(''x-public-key'', pk)] (confirmToken d)]),
            case snd tr of Inl e \<Rightarrow> Inl e | Inr u \<Rightarrow> readBody (confirmRes net))"
proof (cases tr)
  case (Pair tevs tres)
  then have "transfer (\<lambda>status. True) f (UploadOptions.onProgress opts) (url d) (form_fields d) net
      = (tevs, tres)"
    using assms(3) by simp
  then show ?thesis using assms(1,2) Pair
    by (cases tres) (simp_all add: send_def andThen_Inl andThen_Inr prepare_def confirm_def)
qed

subsection \<open>The run of \<open>src/unnamed/part_001\<close> by cases\<close>

lemma send_part_001_signature_fails:
  assumes "getSignature_part_001 (RestashUploaderOptions.handleSignature cfg) net = (evs, Inl e)"
  shows "send_part_001 cfg f opts net n t s = (evs, Inl e)"
  using assms by (simp add: send_part_001_def Let_def andThen_Inl)

lemma send_part_001_prepare_fails:
  assumes "getSignature_part_001 (RestashUploaderOptions.handleSignature cfg) net = (evs, Inr (sg, pl))"
    and "readBody (prepareRes net) = Inl e"
  shows "send_part_001 cfg f opts net n t s =
           (evs @ [PreparePost (request_headers (publicKey cfg) net)
                     (prepare_body n t s (UploadOptions_part_001.path opts) sg pl)], Inl e)"
  using assms by (simp add: send_part_001_def Let_def andThen_Inl andThen_Inr prepare_def)

lemma send_part_001_prepare_invalid:
  assumes "getSignature_part_001 (RestashUploaderOptions.handleSignature cfg) net = (evs, Inr (sg, pl))"
    and "readBody (prepareRes net) = Inr d"
    and "\<not> truthy (url d) \<or> form_fields d = None \<or> \<not> truthy (confirmToken d)"
  shows "send_part_001 cfg f opts net n t s =
           (evs @ [PreparePost (request_headers (publicKey cfg) net)
                     (prepare_body n t s (UploadOptions_part_001.path opts) sg pl)],
            Inl (Error ''Invalid response from prepare upload''))"
  using assms
  by (auto simp add: send_part_001_def Let_def andThen_Inl andThen_Inr prepare_def throw_def)

lemma send_part_001_prepared:
  assumes "getSignature_part_001 (RestashUploaderOptions.handleSignature cfg) net = (evs, Inr (sg, pl))"
    and "readBody (prepareRes net) = Inr d"
    and "truthy (url d)" and "form_fields d \<noteq> None" and "truthy (confirmToken d)"
    and "tr = transfer default_validateStatus f (UploadOptions_part_001.onProgress opts)
                (url d) (form_fields d) net"
  shows "send_part_001 cfg f opts net n t s =
           (evs @ PreparePost (request_headers (publicKey cfg) net)
                    (prepare_body n t s (UploadOptions_part_001.path opts) sg pl) #
              fst tr @ (case snd tr of Inl e \<Rightarrow> []
                        | Inr u \<Rightarrow> [ConfirmPost (request_headers (publicKey cfg) net) (confirmToken d)]),
            case snd tr of Inl e \<Rightarrow> Inl e | Inr u \<Rightarrow> readBody (confirmRes net))"
proof (cases tr)
  case (Pair tevs tres)
  then have "transfer default_validateStatus f (UploadOptions_part_001.onProgress opts)
                (url d) (form_fields d) net = (tevs, tres)"
    using assms(6) by simp
  then show ?thesis using assms(1-5) Pair
    by (cases tres) (auto simp add: send_part_001_def Let_def andThen_Inl andThen_Inr prepare_def confirm_def)
qed

section \<open>The checks of the public key\<close>

text \<open>
  The two checks of the key come first and end the run without an event. Past them the
  key is only sent along as a header: it has no part in the outcome.
\<close>

lemma upload_empty_key: "upload [] f opts net = ([], Inl (Error ''Public key is required''))"
  by (simp add: upload_def throw_def)

lemma upload_part_001_empty_key:
  "publicKey cfg = [] \<Longrightarrow> upload_part_001 cfg f opts net = ([], Inl (Error ''Public key is required''))"
  by (simp add: upload_part_001_def throw_def)

lemma startsWith_not_Nil: "startsWith k ''sk_'' \<Longrightarrow> k \<noteq> []"
  by (auto simp add: startsWith_def)

lemma upload_secret_key:
  "startsWith pk ''sk_'' \<Longrightarrow>
   upload pk f opts net = ([], Inl (Error ''Public key is invalid. You are currently using a secret key''))"
  using startsWith_not_Nil [of pk] by (simp add: upload_def throw_def)

lemma upload_part_001_secret_key:
  "startsWith (publicKey cfg) ''sk_'' \<Longrightarrow>
   upload_part_001 cfg f opts net =
     ([], Inl (Error ''Public key is invalid. You are currently using a secret key''))"
  using startsWith_not_Nil [of "publicKey cfg"] by (simp add: upload_part_001_def throw_def)

lemma upload_file_error_needs_key:
  assumes "snd (upload pk f opts net) = Inl (Error ''File passed in is invalid'')"
  shows "pk \<noteq> [] \<and> \<not> startsWith pk ''sk_''"
proof (rule ccontr)
  assume "\<not> (pk \<noteq> [] \<and> \<not> startsWith pk ''sk_'')"
  then consider "pk = []" | "startsWith pk ''sk_''" by blast
  then show False
  proof cases
    case 1
    then show False using assms by (simp add: upload_empty_key)
  next
    case 2
    then show False using assms by (simp add: upload_secret_key)
  qed
qed

lemma upload_part_001_file_error_needs_key:
  assumes "snd (upload_part_001 cfg f opts net)
             = Inl (Error ''Invalid file passed in. Please pass in a File or Blob'')"
  shows "publicKey cfg \<noteq> [] \<and> \<not> startsWith (publicKey cfg) ''sk_''"
proof (rule ccontr)
  assume "\<not> (publicKey cfg \<noteq> [] \<and> \<not> startsWith (publicKey cfg) ''sk_'')"
  then consider "publicKey cfg = []" | "startsWith (publicKey cfg) ''sk_''" by blast
  then show False
  proof cases
    case 1
    then show False using assms by (simp add: upload_part_001_empty_key)
  next
    case 2
    then show False using assms by (simp add: upload_part_001_secret_key)
  qed
qed

lemma send_key_irrelevant: "snd (send pk f opts net n t s) = snd (send pk' f opts net n t s)"
proof -
  obtain evs r where g: "getSignature (UploadOptions.handleSignature opts) net = (evs, r)"
    by (cases "getSignature (UploadOptions.handleSignature opts) net")
  show ?thesis
  proof (cases r)
    case (Inl e)
    then show ?thesis using g by (simp add: send_signature_fails)
  next
    case (Inr sp)
    obtain sg pl where sp: "sp = (sg, pl)" by (cases sp)
    show ?thesis
    proof (cases "readBody (prepareRes net)")
      case (Inl e)
      then show ?thesis using g Inr sp by (simp add: send_prepare_fails)
    next
      case d: (Inr d)
      have g': "getSignature (UploadOptions.handleSignature opts) net = (evs, Inr (sg, pl))"
        using g Inr sp by simp
      show ?thesis
        by (simp add: send_prepared [OF g' d refl])
    qed
  qed
qed

lemma upload_key_irrelevant:
  assumes "pk \<noteq> []" "\<not> startsWith pk ''sk_''" "pk' \<noteq> []" "\<not> startsWith pk' ''sk_''"
  shows "snd (upload pk f opts net) = snd (upload pk' f opts net)"
  using assms send_key_irrelevant [where pk = pk and pk' = pk']
  by (cases f) (simp_all add: upload_def)

lemma send_part_001_key_irrelevant:
  "snd (send_part_001 (cfg\<lparr>publicKey := pk\<rparr>) f opts net n t s)
     = snd (send_part_001 (cfg\<lparr>publicKey := pk'\<rparr>) f opts net n t s)"
proof -
  let ?hs = "RestashUploaderOptions.handleSignature cfg"
  obtain evs r where g: "getSignature_part_001 ?hs net = (evs, r)"
    by (cases "getSignature_part_001 ?hs net")
  show ?thesis
  proof (cases r)
    case (Inl e)
    then show ?thesis using g by (simp add: send_part_001_signature_fails)
  next
    case (Inr sp)
    obtain sg pl where sp: "sp = (sg, pl)" by (cases sp)
    have g': "getSignature_part_001 (RestashUploaderOptions.handleSignature (cfg\<lparr>publicKey := k\<rparr>)) net
                = (evs, Inr (sg, pl))" for k
      using g Inr sp by simp
    show ?thesis
    proof (cases "readBody (prepareRes net)")
      case (Inl e)
      then show ?thesis by (simp add: send_part_001_prepare_fails [OF g'])
    next
      case d: (Inr d)
      show ?thesis
      proof (cases "truthy (url d) \<and> form_fields d \<noteq> None \<and> truthy (confirmToken d)")
        case True
        then show ?thesis
          by (simp add: send_part_001_prepared [OF g' d _ _ _ refl])
      next
        case False
        then have "\<not> truthy (url d) \<or> form_fields d = None \<or> \<not> truthy (confirmToken d)"
          by blast
        then show ?thesis
          by (simp add: send_part_001_prepare_invalid [OF g' d])
      qed
    qed
  qed
qed

lemma upload_part_001_key_irrelevant:
  assumes "pk \<noteq> []" "\<not> startsWith pk ''sk_''" "pk' \<noteq> []" "\<not> startsWith pk' ''sk_''"
  shows "snd (upload_part_001 (cfg\<lparr>publicKey := pk\<rparr>) f opts net)
       = snd (upload_part_001 (cfg\<lparr>publicKey := pk'\<rparr>) f opts net)"
  using assms send_part_001_key_irrelevant [where pk = pk and pk' = pk']
  by (cases f) (simp_all add: upload_part_001_def)

text \<open>
  C9. With the empty string as public key, the function the factory returns rejects with
  "Public key is required" whatever the file and the options are, and the run has no
  event: no request was made. This holds in both files.
\<close>

theorem empty_public_key_rejected:
  "createRestashUploader [] = Inr (upload [])
   \<and> upload [] file0 options net = ([], Inl (Error ''Public key is required''))
   \<and> createRestashUploader_part_001 (cfg\<lparr>publicKey := []\<rparr>) = Inr (upload_part_001 (cfg\<lparr>publicKey := []\<rparr>))
   \<and> upload_part_001 (cfg\<lparr>publicKey := []\<rparr>) file0 options' net
       = ([], Inl (Error ''Public key is required''))"
  by (simp add: createRestashUploader_def createRestashUploader_part_001_def upload_empty_key
      upload_part_001_empty_key)

theorem empty_public_key_rejected_witness:
  "upload [] example_file no_options example_network = ([], Inl (Error ''Public key is required''))
   \<and> upload_part_001 (example_config\<lparr>publicKey := []\<rparr>) example_file no_options_part_001 example_network
       = ([], Inl (Error ''Public key is required''))"
  using empty_public_key_rejected [where ?file0.0 = example_file and options = no_options
      and net = example_network and cfg = example_config and options' = no_options_part_001]
  by simp

text \<open>
  C10. The factory itself has no error: it returns the upload function, and every check
  waits for the call of that function. There the public key is checked first, for
  presence and then for the prefix \<open>sk_\<close>, before the file is looked at: with an empty
  key every file, valid or not, gives "Public key is required"; with a key that starts
  with \<open>sk_\<close> every file gives the secret-key error; and a run that ends in the file
  error of either file had a key that passed both checks.
\<close>

theorem validation_deferred_key_first:
  "createRestashUploader pk = Inr (upload pk)
   \<and> createRestashUploader_part_001 cfg = Inr (upload_part_001 cfg)
   \<and> snd (upload [] file0 options net) = Inl (Error ''Public key is required'')
   \<and> snd (upload_part_001 (cfg\<lparr>publicKey := []\<rparr>) file0 options' net)
       = Inl (Error ''Public key is required'')
   \<and> snd (upload (''sk_'' @ rest) file0 options net)
       = Inl (Error ''Public key is invalid. You are currently using a secret key'')
   \<and> snd (upload_part_001 (cfg\<lparr>publicKey := ''sk_'' @ rest\<rparr>) file0 options' net)
       = Inl (Error ''Public key is invalid. You are currently using a secret key'')
   \<and> (snd (upload pk file0 options net) = Inl (Error ''File passed in is invalid'')
        \<longrightarrow> pk \<noteq> [] \<and> \<not> startsWith pk ''sk_'')
   \<and> (snd (upload_part_001 cfg file0 options' net)
          = Inl (Error ''Invalid file passed in. Please pass in a File or Blob'')
        \<longrightarrow> publicKey cfg \<noteq> [] \<and> \<not> startsWith (publicKey cfg) ''sk_'')"
proof -
  have sk: "startsWith (''sk_'' @ rest) ''sk_''" by (simp add: startsWith_def)
  have c1: "createRestashUploader pk = Inr (upload pk)"
    by (simp add: createRestashUploader_def)
  have c2: "createRestashUploader_part_001 cfg = Inr (upload_part_001 cfg)"
    by (simp add: createRestashUploader_part_001_def)
  have c3: "snd (upload [] file0 options net) = Inl (Error ''Public key is required'')"
    by (simp add: upload_empty_key)
  have c4: "snd (upload_part_001 (cfg\<lparr>publicKey := []\<rparr>) file0 options' net)
       = Inl (Error ''Public key is required'')"
    by (simp add: upload_part_001_empty_key)
  have c5: "snd (upload (''sk_'' @ rest) file0 options net)
       = Inl (Error ''Public key is invalid. You are currently using a secret key'')"
    using upload_secret_key [OF sk, of file0 options net] by simp
  have "startsWith (publicKey (cfg\<lparr>publicKey := ''sk_'' @ rest\<rparr>)) ''sk_''"
    using sk by simp
  from upload_part_001_secret_key [OF this, of file0 options' net]
  have c6: "snd (upload_part_001 (cfg\<lparr>publicKey := ''sk_'' @ rest\<rparr>) file0 options' net)
       = Inl (Error ''Public key is invalid. You are currently using a secret key'')"
    by simp
  note c7 = upload_file_error_needs_key [of pk file0 options net]
  note c8 = upload_part_001_file_error_needs_key [of cfg file0 options' net]
  show ?thesis
    by (intro conjI impI) (fact c1 c2 c3 c4 c5 c6 | (drule c7 c8, elim conjE, assumption))+
qed

theorem validation_deferred_key_first_witness:
  "snd (upload ''pk_test'' NotBlob no_options example_network) = Inl (Error ''File passed in is invalid'')
   \<and> ''pk_test'' \<noteq> [] \<and> \<not> startsWith ''pk_test'' ''sk_''
   \<and> snd (upload_part_001 example_config NotBlob no_options_part_001 example_network)
       = Inl (Error ''Invalid file passed in. Please pass in a File or Blob'')
   \<and> publicKey example_config \<noteq> [] \<and> \<not> startsWith (publicKey example_config) ''sk_''
   \<and> snd (upload [] NotBlob no_options example_network) = Inl (Error ''Public key is required'')
   \<and> snd (upload_part_001 (example_config\<lparr>publicKey := []\<rparr>) NotBlob no_options_part_001 example_network)
       = Inl (Error ''Public key is required'')
   \<and> snd (upload ''sk_1234567890'' NotBlob no_options example_network)
       = Inl (Error ''Public key is invalid. You are currently using a secret key'')
   \<and> snd (upload_part_001 (example_config\<lparr>publicKey := ''sk_1234567890''\<rparr>) NotBlob no_options_part_001 example_network)
       = Inl (Error ''Public key is invalid. You are currently using a secret key'')"
proof -
  have h1: "snd (upload ''pk_test'' NotBlob no_options example_network)
              = Inl (Error ''File passed in is invalid'')"
    by (simp add: upload_def throw_def startsWith_def)
  have h2: "snd (upload_part_001 example_config NotBlob no_options_part_001 example_network)
              = Inl (Error ''Invalid file passed in. Please pass in a File or Blob'')"
    by (simp add: upload_part_001_def throw_def startsWith_def example_config_def)
  show ?thesis
    using validation_deferred_key_first [where pk = "''pk_test''" and cfg = example_config
        and ?file0.0 = NotBlob and options = no_options and net = example_network
        and options' = no_options_part_001 and rest = "''1234567890''"] h1 h2
    by simp
qed

text \<open>
  C6. A public key that starts with \<open>sk_\<close> is rejected by the upload function with
  "Public key is invalid. You are currently using a secret key", and a secret key that
  starts with \<open>pk_\<close> makes the generator throw "Secret key is invalid. You are currently
  using a public key". Nothing else about a key is checked: two public keys that are not
  empty and do not start with \<open>sk_\<close> give the same outcome on the same file, options and
  network, and every secret key that is not empty and does not start with \<open>pk_\<close> is
  accepted outside a browser.
\<close>

theorem key_prefix_validation:
  "(startsWith k ''sk_'' \<longrightarrow>
      upload k file0 options net
        = ([], Inl (Error ''Public key is invalid. You are currently using a secret key''))
      \<and> upload_part_001 (cfg\<lparr>publicKey := k\<rparr>) file0 options' net
        = ([], Inl (Error ''Public key is invalid. You are currently using a secret key'')))
   \<and> (startsWith s ''pk_'' \<longrightarrow>
      generateSig rt s
        = ([], Inl (Error ''Secret key is invalid. You are currently using a public key''))
      \<and> generateRestashSig rt s
        = ([], Inl (Error ''Secret key is invalid. You are currently using a public key'')))
   \<and> (pk \<noteq> [] \<and> \<not> startsWith pk ''sk_'' \<and> pk' \<noteq> [] \<and> \<not> startsWith pk' ''sk_'' \<longrightarrow>
      snd (upload pk file0 options net) = snd (upload pk' file0 options net)
      \<and> snd (upload_part_001 (cfg\<lparr>publicKey := pk\<rparr>) file0 options' net)
        = snd (upload_part_001 (cfg\<lparr>publicKey := pk'\<rparr>) file0 options' net))
   \<and> (s' \<noteq> [] \<and> \<not> startsWith s' ''pk_'' \<and> \<not> window_defined rt \<longrightarrow>
      (\<exists>r. snd (generateSig rt s') = Inr r) \<and> (\<exists>r. snd (generateRestashSig rt s') = Inr r))"
proof -
  have a: "startsWith s ''pk_'' \<Longrightarrow> s \<noteq> []"
    by (auto simp add: startsWith_def)
  have 1: "startsWith k ''sk_'' \<longrightarrow>
      upload k file0 options net
        = ([], Inl (Error ''Public key is invalid. You are currently using a secret key''))
      \<and> upload_part_001 (cfg\<lparr>publicKey := k\<rparr>) file0 options' net
        = ([], Inl (Error ''Public key is invalid. You are currently using a secret key''))"
    by (simp add: upload_secret_key upload_part_001_secret_key)
  have 2: "startsWith s ''pk_'' \<longrightarrow>
      generateSig rt s
        = ([], Inl (Error ''Secret key is invalid. You are currently using a public key''))
      \<and> generateRestashSig rt s
        = ([], Inl (Error ''Secret key is invalid. You are currently using a public key''))"
    using a by (simp add: generateSig_def generateRestashSig_def)
  have 3: "pk \<noteq> [] \<and> \<not> startsWith pk ''sk_'' \<and> pk' \<noteq> [] \<and> \<not> startsWith pk' ''sk_'' \<longrightarrow>
      snd (upload pk file0 options net) = snd (upload pk' file0 options net)
      \<and> snd (upload_part_001 (cfg\<lparr>publicKey := pk\<rparr>) file0 options' net)
        = snd (upload_part_001 (cfg\<lparr>publicKey := pk'\<rparr>) file0 options' net)"
    using upload_key_irrelevant [of pk pk' file0 options net]
      upload_part_001_key_irrelevant [of pk pk' cfg file0 options' net]
    by blast
  have 4: "s' \<noteq> [] \<and> \<not> startsWith s' ''pk_'' \<and> \<not> window_defined rt \<longrightarrow>
      (\<exists>r. snd (generateSig rt s') = Inr r) \<and> (\<exists>r. snd (generateRestashSig rt s') = Inr r)"
    by (simp add: generateSig_def generateRestashSig_def Let_def)
  show ?thesis using 1 2 3 4 by blast
qed

theorem key_prefix_validation_witness:
  "startsWith ''sk_1234567890'' ''sk_''
   \<and> upload ''sk_1234567890'' example_file no_options example_network
       = ([], Inl (Error ''Public key is invalid. You are currently using a secret key''))
   \<and> upload_part_001 (example_config\<lparr>publicKey := ''sk_1234567890''\<rparr>) example_file
         no_options_part_001 example_network
       = ([], Inl (Error ''Public key is invalid. You are currently using a secret key''))
   \<and> startsWith ''pk_1234567890'' ''pk_''
   \<and> generateSig example_runtime ''pk_1234567890''
       = ([], Inl (Error ''Secret key is invalid. You are currently using a public key''))
   \<and> generateRestashSig example_runtime ''pk_1234567890''
       = ([], Inl (Error ''Secret key is invalid. You are currently using a public key''))
   \<and> ''pk_test'' \<noteq> [] \<and> \<not> startsWith ''pk_test'' ''sk_''
   \<and> ''anon'' \<noteq> [] \<and> \<not> startsWith ''anon'' ''sk_''
   \<and> snd (upload ''pk_test'' example_file no_options example_network)
       = snd (upload ''anon'' example_file no_options example_network)
   \<and> snd (upload_part_001 (example_config\<lparr>publicKey := ''pk_test''\<rparr>) example_file
         no_options_part_001 example_network)
       = snd (upload_part_001 (example_config\<lparr>publicKey := ''anon''\<rparr>) example_file
         no_options_part_001 example_network)
   \<and> ''sk_live_1'' \<noteq> [] \<and> \<not> startsWith ''sk_live_1'' ''pk_'' \<and> \<not> window_defined example_runtime
   \<and> (\<exists>r. snd (generateSig example_runtime ''sk_live_1'') = Inr r)
   \<and> (\<exists>r. snd (generateRestashSig example_runtime ''sk_live_1'') = Inr r)"
proof -
  have h: "startsWith ''sk_1234567890'' ''sk_''" "startsWith ''pk_1234567890'' ''pk_''"
    "''pk_test'' \<noteq> []" "\<not> startsWith ''pk_test'' ''sk_''"
    "''anon'' \<noteq> []" "\<not> startsWith ''anon'' ''sk_''"
    "''sk_live_1'' \<noteq> []" "\<not> startsWith ''sk_live_1'' ''pk_''" "\<not> window_defined example_runtime"
    by (simp_all add: startsWith_def example_runtime_simps)
  show ?thesis
    using key_prefix_validation [where k = "''sk_1234567890''" and ?file0.0 = example_file
        and options = no_options and net = example_network and cfg = example_config
        and options' = no_options_part_001 and s = "''pk_1234567890''" and rt = example_runtime
        and pk = "''pk_test''" and pk' = "''anon''" and s' = "''sk_live_1''"] h
    by simp
qed

section \<open>The name of an upload\<close>

text \<open>
  In \<open>src/unnamed/part_001\<close> the name sent to the prepare endpoint is the one the steps
  are started with, and the name in the options is read nowhere else.
\<close>

lemma file_name_prepare_body: "file_name (prepare_body n t s p sg pl) = n"
  by (simp add: prepare_body_def)

lemma send_part_001_name_ignored:
  "send_part_001 cfg f (opts\<lparr>name := x\<rparr>) net n t s = send_part_001 cfg f opts net n t s"
  by (simp add: send_part_001_def cong: if_cong)

lemma signature_events_no_prepare:
  "ev \<in> set (fst (getSignature_part_001 hs net)) \<Longrightarrow> \<not> is_prepare ev"
  by (auto simp add: fst_getSignature_part_001 split: if_splits)

lemma send_part_001_prepare_name:
  assumes "PreparePost h b \<in> set (fst (send_part_001 cfg f opts net n t s))"
  shows "file_name b = n"
proof -
  let ?hs = "RestashUploaderOptions.handleSignature cfg"
  obtain evs r where g: "getSignature_part_001 ?hs net = (evs, r)"
    by (cases "getSignature_part_001 ?hs net")
  have evs: "PreparePost h b \<notin> set evs"
    using signature_events_no_prepare [of "PreparePost h b" ?hs net] g by auto
  show ?thesis
  proof (cases r)
    case (Inl e)
    then show ?thesis using assms g evs by (simp add: send_part_001_signature_fails)
  next
    case (Inr sp)
    obtain sg pl where sp: "sp = (sg, pl)" by (cases sp)
    have g': "getSignature_part_001 ?hs net = (evs, Inr (sg, pl))"
      using g Inr sp by simp
    show ?thesis
    proof (cases "readBody (prepareRes net)")
      case (Inl e)
      then show ?thesis using assms evs
        by (auto simp add: send_part_001_prepare_fails [OF g'] file_name_prepare_body)
    next
      case d: (Inr d)
      show ?thesis
      proof (cases "truthy (url d) \<and> form_fields d \<noteq> None \<and> truthy (confirmToken d)")
        case True
        let ?tr = "transfer default_validateStatus f (UploadOptions_part_001.onProgress opts)
                     (url d) (form_fields d) net"
        have tr: "PreparePost h b \<notin> set (fst ?tr)"
          using transfer_no_prepare [of "PreparePost h b"] by auto
        from True have u: "truthy (url d)" and ff: "form_fields d \<noteq> None"
          and ct: "truthy (confirmToken d)" by simp_all
        show ?thesis using assms evs tr
          by (auto simp add: send_part_001_prepared [OF g' d u ff ct refl] file_name_prepare_body
              split: sum.splits)
      next
        case False
        then have "\<not> truthy (url d) \<or> form_fields d = None \<or> \<not> truthy (confirmToken d)"
          by blast
        then show ?thesis using assms evs
          by (auto simp add: send_part_001_prepare_invalid [OF g' d] file_name_prepare_body)
      qed
    qed
  qed
qed

lemma send_part_001_reaches_prepare:
  assumes "snd (getSignature_part_001 (RestashUploaderOptions.handleSignature cfg) net) = Inr x"
  shows "\<exists>h b. PreparePost h b \<in> set (fst (send_part_001 cfg f opts net n t s)) \<and> file_name b = n"
proof -
  let ?hs = "RestashUploaderOptions.handleSignature cfg"
  obtain sg pl where x: "x = (sg, pl)" by (cases x)
  have g': "getSignature_part_001 ?hs net = (fst (getSignature_part_001 ?hs net), Inr (sg, pl))"
    using assms x by (simp add: prod_eq_iff)
  let ?P = "PreparePost (request_headers (publicKey cfg) net)
              (prepare_body n t s (UploadOptions_part_001.path opts) sg pl)"
  have "?P \<in> set (fst (send_part_001 cfg f opts net n t s))"
  proof (cases "readBody (prepareRes net)")
    case (Inl e)
    then show ?thesis by (simp add: send_part_001_prepare_fails [OF g'])
  next
    case d: (Inr d)
    show ?thesis
    proof (cases "truthy (url d) \<and> form_fields d \<noteq> None \<and> truthy (confirmToken d)")
      case True
      then have u: "truthy (url d)" and ff: "form_fields d \<noteq> None"
        and ct: "truthy (confirmToken d)" by simp_all
      show ?thesis by (simp add: send_part_001_prepared [OF g' d u ff ct refl])
    next
      case False
      then have "\<not> truthy (url d) \<or> form_fields d = None \<or> \<not> truthy (confirmToken d)"
        by blast
      then show ?thesis by (simp add: send_part_001_prepare_invalid [OF g' d])
    qed
  qed
  then show ?thesis using file_name_prepare_body by blast
qed

lemma or_else_falsy: "\<not> truthy v \<Longrightarrow> or_else v d = d"
  by (simp add: truthy_def or_else_def split: option.splits)

lemma or_else_truthy: "d \<noteq> [] \<Longrightarrow> or_else (Some d) d' = d"
  by (simp add: or_else_def)

lemma random_name_length: "length (toHex (randomBytes net 8)) = 16"
  by (simp add: length_toHex length_randomBytes)

text \<open>\<open>src/src/index.ts\<close> takes a \<open>File\<close>: a value without a name, such as a \<open>Blob\<close>, fails
  its check of the file.\<close>

lemma upload_rejects_blob:
  assumes "pk \<noteq> []" and "\<not> startsWith pk ''sk_''"
  shows "upload pk (Blob t s) opts net = ([], Inl (Error ''File passed in is invalid''))"
  using assms by (simp add: upload_def throw_def)

text \<open>
  C5. In \<open>src/unnamed/part_001\<close>, a \<open>Blob\<close> that is not a \<open>File\<close>, uploaded with no name
  in the options (or an empty one), is not rejected for that: the run is the run of the
  same blob under the name made of eight random bytes in hexadecimal, which has 16
  characters, each a lowercase hexadecimal digit. Every prepare request of the run
  carries that name as the file name, and the prepare request is made whenever the key
  passes its checks and the signature step, if there is one, succeeds.
\<close>

theorem blob_without_name_gets_random_name:
  assumes "\<not> truthy (name options)"
  shows "\<exists>nm. nm = toHex (randomBytes net 8)
           \<and> length nm = 16 \<and> set nm \<subseteq> set ''0123456789abcdef''
           \<and> upload_part_001 cfg (Blob t s) options net
               = upload_part_001 cfg (Blob t s) (options\<lparr>name := Some nm\<rparr>) net
           \<and> (\<forall>h b. PreparePost h b \<in> set (fst (upload_part_001 cfg (Blob t s) options net))
                  \<longrightarrow> file_name b = nm)
           \<and> (publicKey cfg \<noteq> [] \<and> \<not> startsWith (publicKey cfg) ''sk_''
               \<and> (\<exists>x. snd (getSignature_part_001 (RestashUploaderOptions.handleSignature cfg) net) = Inr x)
               \<longrightarrow> (\<exists>h b. PreparePost h b \<in> set (fst (upload_part_001 cfg (Blob t s) options net))
                      \<and> file_name b = nm))"
proof -
  let ?nm = "toHex (randomBytes net 8)"
  have len: "length ?nm = 16"
    by (rule random_name_length)
  have hex: "set ?nm \<subseteq> set ''0123456789abcdef''"
    by (rule set_toHex)
  have ne: "?nm \<noteq> []" using len by auto
  have n1: "or_else (name options) ?nm = ?nm"
    using assms by (rule or_else_falsy)
  have n2: "or_else (name (options\<lparr>name := Some ?nm\<rparr>)) ?nm = ?nm"
    using ne by (simp add: or_else_truthy)
  have same: "upload_part_001 cfg (Blob t s) options net
               = upload_part_001 cfg (Blob t s) (options\<lparr>name := Some ?nm\<rparr>) net"
    unfolding upload_part_001_def js_file.case n1 n2 send_part_001_name_ignored ..
  have sent: "file_name b = ?nm"
    if "PreparePost h b \<in> set (fst (upload_part_001 cfg (Blob t s) options net))" for h b
  proof (cases "publicKey cfg = [] \<or> startsWith (publicKey cfg) ''sk_''")
    case True
    then have "fst (upload_part_001 cfg (Blob t s) options net) = []"
      using upload_part_001_empty_key [of cfg] upload_part_001_secret_key [of cfg] by auto
    then show ?thesis using that by simp
  next
    case False
    then have "upload_part_001 cfg (Blob t s) options net
                 = send_part_001 cfg (Blob t s) options net ?nm t s"
      by (simp add: upload_part_001_def n1)
    then show ?thesis using that send_part_001_prepare_name by simp
  qed
  have reached: "\<exists>h b. PreparePost h b \<in> set (fst (upload_part_001 cfg (Blob t s) options net))
                   \<and> file_name b = ?nm"
    if "publicKey cfg \<noteq> []" "\<not> startsWith (publicKey cfg) ''sk_''"
      "snd (getSignature_part_001 (RestashUploaderOptions.handleSignature cfg) net) = Inr x" for x
  proof -
    have "upload_part_001 cfg (Blob t s) options net
            = send_part_001 cfg (Blob t s) options net ?nm t s"
      using that by (simp add: upload_part_001_def n1)
    then show ?thesis using send_part_001_reaches_prepare [OF that(3)] by simp
  qed
  show ?thesis
  proof (intro exI [of _ ?nm] conjI allI impI)
    show "?nm = ?nm" ..
  next
    fix h b
    assume "PreparePost h b \<in> set (fst (upload_part_001 cfg (Blob t s) options net))"
    then show "file_name b = ?nm" by (rule sent)
  next
    assume "publicKey cfg \<noteq> [] \<and> \<not> startsWith (publicKey cfg) ''sk_''
      \<and> (\<exists>x. snd (getSignature_part_001 (RestashUploaderOptions.handleSignature cfg) net) = Inr x)"
    then show "\<exists>h b. PreparePost h b \<in> set (fst (upload_part_001 cfg (Blob t s) options net))
                   \<and> file_name b = ?nm"
      using reached by (elim conjE exE) 
  qed (fact len hex same)+
qed

theorem blob_without_name_gets_random_name_witness:
  "\<not> truthy (name no_options_part_001)
   \<and> toHex (randomBytes example_network 8) = ''0b30557a9fc4e90e''
   \<and> upload_part_001 example_config (Blob ''text/plain'' 4) no_options_part_001 example_network
       = upload_part_001 example_config (Blob ''text/plain'' 4)
           (no_options_part_001\<lparr>name := Some ''0b30557a9fc4e90e''\<rparr>) example_network
   \<and> (\<exists>h b. PreparePost h b
          \<in> set (fst (upload_part_001 example_config (Blob ''text/plain'' 4) no_options_part_001
                       example_network))
        \<and> file_name b = ''0b30557a9fc4e90e'')"
proof -
  have h: "\<not> truthy (name no_options_part_001)"
    by (simp add: no_options_part_001_def truthy_def)
  have nm: "toHex (randomBytes example_network 8) = ''0b30557a9fc4e90e''"
    by code_simp
  have k: "publicKey example_config \<noteq> []" "\<not> startsWith (publicKey example_config) ''sk_''"
    by (simp_all add: example_config_def startsWith_def)
  have g: "\<exists>x. snd (getSignature_part_001 (RestashUploaderOptions.handleSignature example_config)
                      example_network) = Inr x"
    by (simp add: example_config_def getSignature_part_001_def)
  show ?thesis
    using nm h k g
      blob_without_name_gets_random_name [OF h, where net = example_network
        and cfg = example_config and t = "''text/plain''" and s = 4]
    by (elim exE conjE) simp
qed

section \<open>The three responses\<close>

text \<open>
  How the two files treat a prepare response without a confirmation token, a signature
  response with an empty signature, and a transfer response outside 200 to 299. A run
  either ends in the checks of the key and the file, with no event, or is the run of
  the steps.
\<close>

lemma signature_events_no_transfer:
  "ev \<in> set (fst (getSignature hs net)) \<Longrightarrow> \<not> is_transfer ev"
  "ev \<in> set (fst (getSignature_part_001 hs net)) \<Longrightarrow> \<not> is_transfer ev"
  by (auto simp add: fst_getSignature fst_getSignature_part_001 split: if_splits)

lemma upload_cases:
  obtains e where "upload pk f opts net = ([], Inl e)"
  | n t s where "upload pk f opts net = send pk f opts net n t s"
proof -
  have "(\<exists>e. upload pk f opts net = ([], Inl e))
      \<or> (\<exists>n t s. upload pk f opts net = send pk f opts net n t s)"
    by (cases f) (auto simp add: upload_def throw_def)
  then show ?thesis using that by blast
qed

lemma upload_part_001_cases:
  obtains e where "upload_part_001 cfg f opts net = ([], Inl e)"
  | n t s where "upload_part_001 cfg f opts net = send_part_001 cfg f opts net n t s"
proof -
  have "(\<exists>e. upload_part_001 cfg f opts net = ([], Inl e))
      \<or> (\<exists>n t s. upload_part_001 cfg f opts net = send_part_001 cfg f opts net n t s)"
    by (cases f) (auto simp add: upload_part_001_def throw_def)
  then show ?thesis using that by blast
qed

lemma example_confirmed: "readBody (confirmRes example_network) = Inr example_result"
  by (simp add: example_network_def readBody_def)

subsection \<open>A prepare response without a confirmation token\<close>

text \<open>
  In \<open>src/unnamed/part_001\<close> a prepare response whose body has no confirmation token, or
  an empty one, ends the run with an error, and no transfer request is among its events.
\<close>

lemma send_part_001_needs_confirmToken:
  assumes "\<And>d. readBody (prepareRes net) = Inr d \<Longrightarrow> \<not> truthy (confirmToken d)"
  shows "(\<exists>e. snd (send_part_001 cfg f opts net n t s) = Inl e)
       \<and> (\<forall>ev \<in> set (fst (send_part_001 cfg f opts net n t s)). \<not> is_transfer ev)"
proof -
  let ?hs = "RestashUploaderOptions.handleSignature cfg"
  obtain evs r where g: "getSignature_part_001 ?hs net = (evs, r)"
    by (cases "getSignature_part_001 ?hs net")
  have evs: "\<forall>ev \<in> set evs. \<not> is_transfer ev"
    using signature_events_no_transfer(2) [of _ ?hs net] g by auto
  show ?thesis
  proof (cases r)
    case (Inl e)
    then show ?thesis using g evs by (simp add: send_part_001_signature_fails)
  next
    case (Inr sp)
    obtain sg pl where sp: "sp = (sg, pl)" by (cases sp)
    have g': "getSignature_part_001 ?hs net = (evs, Inr (sg, pl))"
      using g Inr sp by simp
    show ?thesis
    proof (cases "readBody (prepareRes net)")
      case (Inl e)
      then show ?thesis using evs by (simp add: send_part_001_prepare_fails [OF g'])
    next
      case d: (Inr d)
      then have "\<not> truthy (url d) \<or> form_fields d = None \<or> \<not> truthy (confirmToken d)"
        using assms by blast
      then show ?thesis using evs by (simp add: send_part_001_prepare_invalid [OF g' d])
    qed
  qed
qed

lemma upload_part_001_needs_confirmToken:
  assumes "prepareRes net = Inr res"
    and "\<And>b. json res = Inr b \<Longrightarrow> \<not> truthy (confirmToken (body_data b))"
  shows "(\<exists>e. snd (upload_part_001 cfg f opts net) = Inl e)
       \<and> (\<forall>ev \<in> set (fst (upload_part_001 cfg f opts net)). \<not> is_transfer ev)"
proof -
  have no: "\<not> truthy (confirmToken d)" if "readBody (prepareRes net) = Inr d" for d
    using that assms by (auto simp add: readBody_Inr_iff)
  show ?thesis
  proof (cases rule: upload_part_001_cases [of cfg f opts net])
    case (1 e)
    then show ?thesis by simp
  next
    case (2 n t s)
    then show ?thesis using send_part_001_needs_confirmToken [OF no] by simp
  qed
qed

lemma upload_part_001_empty_token:
  "upload_part_001 example_config example_file no_options_part_001
     (example_network\<lparr>prepareRes := empty_token_response\<rparr>)
   = ([PreparePost [(''x-public-key'', ''pk_test'')]
         \<lparr>file_name = ''test.txt'', file_type = ''text/plain'', file_size = 4,
          file_path = None, body_signature = None, body_payload = None\<rparr>],
      Inl (Error ''Invalid response from prepare upload''))"
  by code_simp

text \<open>
  \<open>src/src/index.ts\<close> does not look at the token: whenever the prepare response carries
  fields, the transfer request is made.
\<close>

lemma send_transfers_without_check:
  assumes "snd (getSignature (UploadOptions.handleSignature opts) net) = Inr x"
    and "readBody (prepareRes net) = Inr d" and "form_fields d = Some fs"
  shows "TransferPost (url d) (map (\<lambda>(key, v). (key, Text v)) fs @ [(''file'', FilePart f)])
           \<in> set (fst (send pk f opts net n t s))"
proof -
  let ?hs = "UploadOptions.handleSignature opts"
  obtain sg pl where x: "x = (sg, pl)" by (cases x)
  have g': "getSignature ?hs net = (fst (getSignature ?hs net), Inr (sg, pl))"
    using assms(1) x by (simp add: prod_eq_iff)
  show ?thesis
    using assms(3) by (simp add: send_prepared [OF g' assms(2) refl] fst_transfer)
qed

text \<open>
  C2. A prepare response whose body has no confirmation token, or an empty one, must end
  the upload with an error before any request goes to the destination URL.
  \<open>src/unnamed/part_001\<close> does so (\<open>upload_part_001_needs_confirmToken\<close>).
  \<open>src/src/index.ts\<close> reads \<open>url\<close>, \<open>fields\<close> and \<open>confirmToken\<close> without a check: at the
  response of the tests, with the empty token, it posts the form to \<open>my-url\<close>, then posts
  the empty token to the confirm endpoint and returns what that answers.
\<close>

theorem upload_transfers_without_confirmToken:
  "upload ''pk_test'' example_file no_options (example_network\<lparr>prepareRes := empty_token_response\<rparr>)
     = ([PreparePost [(''x-public-key'', ''pk_test'')]
           \<lparr>file_name = ''test.txt'', file_type = ''text/plain'', file_size = 4,
            file_path = None, body_signature = None, body_payload = None\<rparr>,
         TransferPost (Some ''my-url'')
           [(''key'', Text ''test''), (''file'', FilePart (File ''test.txt'' ''text/plain'' 4))],
         ConfirmPost [(''x-public-key'', ''pk_test'')] (Some [])],
        Inr example_result)"
  by code_simp

subsection \<open>A signature response with an empty signature\<close>

text \<open>
  In \<open>src/unnamed/part_001\<close> a signature endpoint that answers with success and an empty
  (or absent) signature ends the run there: the only event is the request to that
  endpoint, so no prepare request was made, and the message contains
  "did not return a valid signature".
\<close>

lemma getSignature_part_001_empty_signature:
  assumes "u \<noteq> []" and "signatureRes net = Inr res" and "ok res" and "json res = Inr d"
    and "\<not> truthy (sigData_signature d)"
  shows "getSignature_part_001 (Some u) net =
           ([SignatureGet u], Inl (Error ''Your signature endpoint did not return a valid signature''))"
  using assms by (simp add: getSignature_part_001_def)

lemma upload_part_001_empty_signature:
  assumes "publicKey cfg \<noteq> []" and "\<not> startsWith (publicKey cfg) ''sk_''" and "f \<noteq> NotBlob"
    and "RestashUploaderOptions.handleSignature cfg = Some u" and "u \<noteq> []"
    and "signatureRes net = Inr res" and "ok res" and "json res = Inr d"
    and "\<not> truthy (sigData_signature d)"
  shows "upload_part_001 cfg f opts net =
           ([SignatureGet u], Inl (Error ''Your signature endpoint did not return a valid signature''))"
proof -
  have g: "getSignature_part_001 (RestashUploaderOptions.handleSignature cfg) net =
      ([SignatureGet u], Inl (Error ''Your signature endpoint did not return a valid signature''))"
    using getSignature_part_001_empty_signature [OF assms(5-9)] assms(4) by simp
  show ?thesis using assms(1-3)
    by (cases f) (simp_all add: upload_part_001_def send_part_001_signature_fails [OF g])
qed

lemma signature_message_includes:
  "includes_str ''Your signature endpoint did not return a valid signature''
     ''did not return a valid signature''"
  by code_simp

lemma upload_part_001_empty_signature_message:
  assumes "publicKey cfg \<noteq> []" and "\<not> startsWith (publicKey cfg) ''sk_''" and "f \<noteq> NotBlob"
    and "RestashUploaderOptions.handleSignature cfg = Some u" and "u \<noteq> []"
    and "signatureRes net = Inr res" and "ok res" and "json res = Inr d"
    and "\<not> truthy (sigData_signature d)"
  shows "\<exists>e. snd (upload_part_001 cfg f opts net) = Inl e
           \<and> includes_str (message e) ''did not return a valid signature''
           \<and> (\<forall>ev \<in> set (fst (upload_part_001 cfg f opts net)). \<not> is_prepare ev)"
  using signature_message_includes
  by (simp add: upload_part_001_empty_signature [OF assms])

text \<open>
  \<open>src/src/index.ts\<close> takes whatever a successful signature response holds, and goes on to
  the prepare request.
\<close>

lemma getSignature_unchecked:
  assumes "u \<noteq> []" and "signatureRes net = Inr res" and "ok res" and "json res = Inr d"
  shows "getSignature (Some u) net = ([SignatureGet u], Inr (sigData_signature d, sigData_payload d))"
  using assms by (simp add: getSignature_def)

lemma send_prepares_after_any_signature:
  assumes "UploadOptions.handleSignature opts = Some u"
    and "u \<noteq> []" and "signatureRes net = Inr res" and "ok res" and "json res = Inr d"
  shows "PreparePost [(''x-public-key'', pk)]
           (prepare_body n t s (UploadOptions.path opts) (sigData_signature d) (sigData_payload d))
         \<in> set (fst (send pk f opts net n t s))"
proof -
  have g: "getSignature (UploadOptions.handleSignature opts) net
             = ([SignatureGet u], Inr (sigData_signature d, sigData_payload d))"
    using getSignature_unchecked [OF assms(2-5)] assms(1) by simp
  show ?thesis
  proof (cases "readBody (prepareRes net)")
    case (Inl e)
    then show ?thesis by (simp add: send_prepare_fails [OF g])
  next
    case (Inr d')
    then show ?thesis by (simp add: send_prepared [OF g Inr refl])
  qed
qed

text \<open>
  C4. A signature endpoint that answers with success and an empty signature must end the
  upload with an error whose message contains "did not return a valid signature", before
  any prepare request. \<open>src/unnamed/part_001\<close> does so
  (\<open>upload_part_001_empty_signature\<close>). \<open>src/src/index.ts\<close> has neither check on the
  answer: at the response of the tests (\<open>signature: ""\<close>, \<open>payload: "123"\<close>) it sends the
  prepare request without a signature and carries the upload through to the end.
\<close>

theorem upload_prepares_after_empty_signature:
  "upload ''pk_test'' example_file (no_options\<lparr>UploadOptions.handleSignature := Some ''/fake-endpoint''\<rparr>)
      (example_network\<lparr>signatureRes := empty_signature_response\<rparr>)
     = ([SignatureGet ''/fake-endpoint'',
         PreparePost [(''x-public-key'', ''pk_test'')]
           \<lparr>file_name = ''test.txt'', file_type = ''text/plain'', file_size = 4,
            file_path = None, body_signature = None, body_payload = Some ''123''\<rparr>,
         TransferPost (Some ''https://bucket.example/'')
           [(''key'', Text ''uploads/test.txt''), (''file'', FilePart (File ''test.txt'' ''text/plain'' 4))],
         ConfirmPost [(''x-public-key'', ''pk_test'')] (Some ''tok_1'')],
        Inr example_result)"
  by code_simp

subsection \<open>A transfer response outside 200 to 299\<close>

text \<open>
  Once the transfer request is made, a status outside 200 to 299 ends the run of
  \<open>src/src/index.ts\<close> with "Failed to upload file": axios is told to accept every status,
  and the check after it throws. In \<open>src/unnamed/part_001\<close> axios is left to its default,
  rejects such a status itself, and the run ends with the error of axios; the check
  after it is never reached with such a status.
\<close>

lemma snd_transfer_default_rejects:
  assumes "uploadRes net = Inr status" and "status < 200 \<or> 300 \<le> status"
  shows "snd (transfer default_validateStatus f cb u (Some fs) net)
           = Inl (AxiosError (''Request failed with status code '' @ toString (int status)))"
proof -
  have "\<not> default_validateStatus status"
    using assms(2) by (auto simp add: default_validateStatus_def)
  then show ?thesis
    using assms(1) by (simp add: transfer_def axios_post_def Let_def)
qed

lemma send_non_2xx:
  assumes "TransferPost u form \<in> set (fst (send pk f opts net n t s))"
    and "uploadRes net = Inr status" and "status < 200 \<or> 300 \<le> status"
  shows "snd (send pk f opts net n t s) = Inl (Error ''Failed to upload file'')"
proof -
  let ?hs = "UploadOptions.handleSignature opts"
  obtain evs r where g: "getSignature ?hs net = (evs, r)"
    by (cases "getSignature ?hs net")
  have evs: "TransferPost u form \<notin> set evs"
    using signature_events_no_transfer(1) [of "TransferPost u form" ?hs net] g by auto
  show ?thesis
  proof (cases r)
    case (Inl e)
    then show ?thesis using assms(1) g evs by (simp add: send_signature_fails)
  next
    case (Inr sp)
    obtain sg pl where sp: "sp = (sg, pl)" by (cases sp)
    have g': "getSignature ?hs net = (evs, Inr (sg, pl))"
      using g Inr sp by simp
    show ?thesis
    proof (cases "readBody (prepareRes net)")
      case (Inl e)
      then show ?thesis using assms(1) evs by (simp add: send_prepare_fails [OF g'])
    next
      case d: (Inr d)
      show ?thesis
      proof (cases "form_fields d")
        case None
        then show ?thesis using assms(1) evs
          by (simp add: send_prepared [OF g' d refl] fst_transfer snd_transfer_None)
      next
        case (Some fs)
        then show ?thesis using assms(3)
          by (simp add: send_prepared [OF g' d refl] snd_transfer_any_status [OF assms(2)])
      qed
    qed
  qed
qed

lemma upload_non_2xx:
  assumes "TransferPost u form \<in> set (fst (upload pk f opts net))"
    and "uploadRes net = Inr status" and "status < 200 \<or> 300 \<le> status"
  shows "snd (upload pk f opts net) = Inl (Error ''Failed to upload file'')"
proof (cases rule: upload_cases [of pk f opts net])
  case (1 e)
  then show ?thesis using assms(1) by simp
next
  case (2 n t s)
  then show ?thesis using send_non_2xx [of u form pk f opts net n t s status] assms by simp
qed

lemma send_part_001_non_2xx:
  assumes "TransferPost u form \<in> set (fst (send_part_001 cfg f opts net n t s))"
    and "uploadRes net = Inr status" and "status < 200 \<or> 300 \<le> status"
  shows "snd (send_part_001 cfg f opts net n t s)
           = Inl (AxiosError (''Request failed with status code '' @ toString (int status)))"
proof -
  let ?hs = "RestashUploaderOptions.handleSignature cfg"
  obtain evs r where g: "getSignature_part_001 ?hs net = (evs, r)"
    by (cases "getSignature_part_001 ?hs net")
  have evs: "TransferPost u form \<notin> set evs"
    using signature_events_no_transfer(2) [of "TransferPost u form" ?hs net] g by auto
  show ?thesis
  proof (cases r)
    case (Inl e)
    then show ?thesis using assms(1) g evs by (simp add: send_part_001_signature_fails)
  next
    case (Inr sp)
    obtain sg pl where sp: "sp = (sg, pl)" by (cases sp)
    have g': "getSignature_part_001 ?hs net = (evs, Inr (sg, pl))"
      using g Inr sp by simp
    show ?thesis
    proof (cases "readBody (prepareRes net)")
      case (Inl e)
      then show ?thesis using assms(1) evs by (simp add: send_part_001_prepare_fails [OF g'])
    next
      case d: (Inr d)
      show ?thesis
      proof (cases "truthy (url d) \<and> form_fields d \<noteq> None \<and> truthy (confirmToken d)")
        case True
        then obtain fs where u: "truthy (url d)" and ff: "form_fields d \<noteq> None"
          and fs: "form_fields d = Some fs" and ct: "truthy (confirmToken d)" by auto
        show ?thesis using fs
          by (simp add: send_part_001_prepared [OF g' d u ff ct refl]
              snd_transfer_default_rejects [OF assms(2,3)])
      next
        case False
        then have "\<not> truthy (url d) \<or> form_fields d = None \<or> \<not> truthy (confirmToken d)"
          by blast
        then show ?thesis using assms(1) evs
          by (simp add: send_part_001_prepare_invalid [OF g' d])
      qed
    qed
  qed
qed

lemma upload_part_001_non_2xx:
  assumes "TransferPost u form \<in> set (fst (upload_part_001 cfg f opts net))"
    and "uploadRes net = Inr status" and "status < 200 \<or> 300 \<le> status"
  shows "snd (upload_part_001 cfg f opts net)
           = Inl (AxiosError (''Request failed with status code '' @ toString (int status)))"
proof (cases rule: upload_part_001_cases [of cfg f opts net])
  case (1 e)
  then show ?thesis using assms(1) by simp
next
  case (2 n t s)
  then show ?thesis
    using send_part_001_non_2xx [of u form cfg f opts net n t s status] assms by simp
qed

lemma upload_403:
  "upload ''pk_test'' example_file no_options (example_network\<lparr>uploadRes := Inr 403\<rparr>)
     = ([PreparePost [(''x-public-key'', ''pk_test'')]
           \<lparr>file_name = ''test.txt'', file_type = ''text/plain'', file_size = 4,
            file_path = None, body_signature = None, body_payload = None\<rparr>,
         TransferPost (Some ''https://bucket.example/'')
           [(''key'', Text ''uploads/test.txt''), (''file'', FilePart (File ''test.txt'' ''text/plain'' 4))]],
        Inl (Error ''Failed to upload file''))"
  by code_simp

text \<open>
  C3. A response of the destination URL with a status outside 200 to 299 must end the
  upload with the message "Failed to upload file". \<open>src/src/index.ts\<close> does so
  (\<open>upload_non_2xx\<close>). \<open>src/unnamed/part_001\<close> calls \<open>axios.post\<close> without
  \<open>validateStatus\<close>: at the status 403 the promise of axios rejects, and the upload ends
  with the message of axios, not with "Failed to upload file".
\<close>

theorem upload_part_001_non_2xx_is_axios_error:
  "upload_part_001 example_config example_file no_options_part_001 (example_network\<lparr>uploadRes := Inr 403\<rparr>)
     = ([PreparePost [(''x-public-key'', ''pk_test'')]
           \<lparr>file_name = ''test.txt'', file_type = ''text/plain'', file_size = 4,
            file_path = None, body_signature = None, body_payload = None\<rparr>,
         TransferPost (Some ''https://bucket.example/'')
           [(''key'', Text ''uploads/test.txt''), (''file'', FilePart (File ''test.txt'' ''text/plain'' 4))]],
        Inl (AxiosError ''Request failed with status code 403''))"
  by code_simp

section \<open>Progress reports\<close>

lemma or_1_pos: "0 < or_1 t"
  by (simp add: or_1_def split: option.splits)

lemma or_1_known: "0 < t \<Longrightarrow> or_1 (Some t) = t"
  and or_1_unknown: "or_1 None = 1"
  and or_1_zero: "or_1 (Some 0) = 1"
  by (simp_all add: or_1_def)

lemma Math_round_quotient:
  assumes "0 < t"
  shows "Math_round (of_nat a / of_nat t) = int ((2 * a + t) div (2 * t))"
proof -
  have "(of_nat a / of_nat t :: rat) + 1 / 2 = of_nat (2 * a + t) / of_nat (2 * t)"
    using assms by (simp add: field_simps)
  then show ?thesis
    unfolding Math_round_def by (simp only: floor_divide_of_nat_eq)
qed

text \<open>The value handed to the callback: the total is 1 when the event has none (or has
  0), and the percentage is \<open>loaded * 100 / total\<close> rounded to the nearest integer.\<close>

lemma total_default:
  "total (onUploadProgress ev) = or_1 (event_total ev)"
  "loaded (onUploadProgress ev) = event_loaded ev"
  "percent (onUploadProgress ev)
     = Math_round (of_nat (event_loaded ev * 100) / of_nat (total (onUploadProgress ev)))"
  by (simp_all add: onUploadProgress_def Let_def)

lemma percent_formula:
  "percent (onUploadProgress ev)
     = int ((200 * event_loaded ev + or_1 (event_total ev)) div (2 * or_1 (event_total ev)))"
  using Math_round_quotient [OF or_1_pos, of "event_loaded ev * 100" "event_total ev"]
  by (simp add: onUploadProgress_def Let_def mult.commute)

lemma percent_nonneg: "0 \<le> percent (onUploadProgress ev)"
  by (simp add: percent_formula)

text \<open>With a known total that is not exceeded, the percentage stays within 100.\<close>

lemma percent_le_100:
  assumes "event_total ev = Some t" and "event_loaded ev \<le> t"
  shows "percent (onUploadProgress ev) \<le> 100"
proof (cases "t = 0")
  case True
  then show ?thesis using assms by (simp add: percent_formula or_1_zero)
next
  case False
  then have t: "or_1 (event_total ev) = t" using assms by (simp add: or_1_known)
  have "(200 * event_loaded ev + t) div (2 * t) \<le> (201 * t) div (2 * t)"
    using assms by (intro div_le_mono) simp
  also have "\<dots> < 101" using False
    by (intro less_mult_imp_div_less) simp
  finally show ?thesis by (simp add: percent_formula t)
qed

text \<open>With an unknown total the percentage is a hundred times the bytes loaded.\<close>

lemma percent_unknown_total:
  "event_total ev = None \<Longrightarrow> percent (onUploadProgress ev) = int (100 * event_loaded ev)"
  by (simp add: percent_formula or_1_unknown)

text \<open>What the callback receives in a run is the handler's value at an event of the
  transfer.\<close>

lemma transfer_reports:
  "ProgressReport p \<in> set (fst (transfer v f cb u fs net))
     \<Longrightarrow> cb \<and> p \<in> onUploadProgress ` set (progressEvents net)"
  by (auto simp add: fst_transfer split: option.splits if_splits)

lemma signature_events_no_report:
  "ProgressReport p \<notin> set (fst (getSignature hs net))"
  "ProgressReport p \<notin> set (fst (getSignature_part_001 hs net))"
  by (simp_all add: fst_getSignature fst_getSignature_part_001)

lemma send_reports:
  assumes "ProgressReport p \<in> set (fst (send pk f opts net n t s))"
  shows "p \<in> onUploadProgress ` set (progressEvents net)"
proof -
  let ?hs = "UploadOptions.handleSignature opts"
  obtain evs r where g: "getSignature ?hs net = (evs, r)"
    by (cases "getSignature ?hs net")
  have evs: "ProgressReport p \<notin> set evs"
    using signature_events_no_report(1) [of p ?hs net] g by simp
  show ?thesis
  proof (cases r)
    case (Inl e)
    then show ?thesis using assms g evs by (simp add: send_signature_fails)
  next
    case (Inr sp)
    obtain sg pl where sp: "sp = (sg, pl)" by (cases sp)
    have g': "getSignature ?hs net = (evs, Inr (sg, pl))"
      using g Inr sp by simp
    show ?thesis
    proof (cases "readBody (prepareRes net)")
      case (Inl e)
      then show ?thesis using assms evs by (simp add: send_prepare_fails [OF g'])
    next
      case d: (Inr d)
      let ?tr = "transfer (\<lambda>status. True) f (UploadOptions.onProgress opts) (url d) (form_fields d) net"
      have "ProgressReport p \<in> set (fst ?tr)"
        using assms evs by (auto simp add: send_prepared [OF g' d refl] split: sum.splits)
      then show ?thesis using transfer_reports by blast
    qed
  qed
qed

lemma upload_reports:
  assumes "ProgressReport p \<in> set (fst (upload pk f opts net))"
  shows "p \<in> onUploadProgress ` set (progressEvents net)"
proof (cases rule: upload_cases [of pk f opts net])
  case (1 e)
  then show ?thesis using assms by simp
next
  case (2 n t s)
  then show ?thesis using send_reports assms by simp
qed

lemma send_part_001_reports:
  assumes "ProgressReport p \<in> set (fst (send_part_001 cfg f opts net n t s))"
  shows "p \<in> onUploadProgress ` set (progressEvents net)"
proof -
  let ?hs = "RestashUploaderOptions.handleSignature cfg"
  obtain evs r where g: "getSignature_part_001 ?hs net = (evs, r)"
    by (cases "getSignature_part_001 ?hs net")
  have evs: "ProgressReport p \<notin> set evs"
    using signature_events_no_report(2) [of p ?hs net] g by simp
  show ?thesis
  proof (cases r)
    case (Inl e)
    then show ?thesis using assms g evs by (simp add: send_part_001_signature_fails)
  next
    case (Inr sp)
    obtain sg pl where sp: "sp = (sg, pl)" by (cases sp)
    have g': "getSignature_part_001 ?hs net = (evs, Inr (sg, pl))"
      using g Inr sp by simp
    show ?thesis
    proof (cases "readBody (prepareRes net)")
      case (Inl e)
      then show ?thesis using assms evs by (simp add: send_part_001_prepare_fails [OF g'])
    next
      case d: (Inr d)
      show ?thesis
      proof (cases "truthy (url d) \<and> form_fields d \<noteq> None \<and> truthy (confirmToken d)")
        case True
        then have u: "truthy (url d)" and ff: "form_fields d \<noteq> None"
          and ct: "truthy (confirmToken d)" by simp_all
        let ?tr = "transfer default_validateStatus f (UploadOptions_part_001.onProgress opts)
                     (url d) (form_fields d) net"
        have "ProgressReport p \<in> set (fst ?tr)"
          using assms evs
          by (auto simp add: send_part_001_prepared [OF g' d u ff ct refl] split: sum.splits)
        then show ?thesis using transfer_reports by blast
      next
        case False
        then have "\<not> truthy (url d) \<or> form_fields d = None \<or> \<not> truthy (confirmToken d)"
          by blast
        then show ?thesis using assms evs
          by (simp add: send_part_001_prepare_invalid [OF g' d])
      qed
    qed
  qed
qed

lemma upload_part_001_reports:
  assumes "ProgressReport p \<in> set (fst (upload_part_001 cfg f opts net))"
  shows "p \<in> onUploadProgress ` set (progressEvents net)"
proof (cases rule: upload_part_001_cases [of cfg f opts net])
  case (1 e)
  then show ?thesis using assms by simp
next
  case (2 n t s)
  then show ?thesis using send_part_001_reports assms by simp
qed

text \<open>
  C1. For every progress event of the transfer the callback is to receive the percentage
  \<open>loaded * 100 / total\<close> rounded to the nearest integer, with 1 for a total that is not
  known, and a percentage from 0 to 100. The first two hold of every report
  (\<open>total_default\<close>, \<open>percent_formula\<close>, \<open>upload_reports\<close>), no percentage is negative, and
  none exceeds 100 while the total is known and not exceeded (\<open>percent_le_100\<close>). With
  an unknown total the handler divides by 1: the event with 4 bytes loaded and no total
  is reported as 400 percent, in both files, although \<open>UploadProgress.percent\<close> is
  documented as "Percentage of the upload completed (0-100)".
\<close>

theorem progress_percent_above_100:
  "onUploadProgress unknown_total = \<lparr>percent = 400, loaded = 4, total = 1\<rparr>
   \<and> upload ''pk_test'' example_file progress_options
        (example_network\<lparr>progressEvents := [unknown_total]\<rparr>)
       = ([PreparePost [(''x-public-key'', ''pk_test'')]
             \<lparr>file_name = ''test.txt'', file_type = ''text/plain'', file_size = 4,
              file_path = None, body_signature = None, body_payload = None\<rparr>,
           TransferPost (Some ''https://bucket.example/'')
             [(''key'', Text ''uploads/test.txt''), (''file'', FilePart (File ''test.txt'' ''text/plain'' 4))],
           ProgressReport \<lparr>percent = 400, loaded = 4, total = 1\<rparr>,
           ConfirmPost [(''x-public-key'', ''pk_test'')] (Some ''tok_1'')],
          Inr example_result)
   \<and> upload_part_001 example_config example_file progress_options_part_001
        (example_network\<lparr>progressEvents := [unknown_total]\<rparr>)
       = ([PreparePost [(''x-public-key'', ''pk_test'')]
             \<lparr>file_name = ''test.txt'', file_type = ''text/plain'', file_size = 4,
              file_path = None, body_signature = None, body_payload = None\<rparr>,
           TransferPost (Some ''https://bucket.example/'')
             [(''key'', Text ''uploads/test.txt''), (''file'', FilePart (File ''test.txt'' ''text/plain'' 4))],
           ProgressReport \<lparr>percent = 400, loaded = 4, total = 1\<rparr>,
           ConfirmPost [(''x-public-key'', ''pk_test'')] (Some ''tok_1'')],
          Inr example_result)"
  by code_simp

end
